theory Spec2Isabelle
  imports Complex_Main
begin

section \<open>Underwater detection application: a shallow embedding\<close>

text \<open>
  The development follows \<^verbatim>\<open>app_simple_professional.py\<close> and the two training
  scripts. Python floats are modelled as finite reals, Python ints as \<^typ>\<open>int\<close>,
  Python strings as \<^typ>\<open>string\<close> (non-ASCII characters of the source's literals are
  written as their UTF-8 bytes). Exceptions are values of \<open>py_error\<close>. Objects that
  the code mutates in place (pixel arrays) live in an explicit heap, a list indexed
  by address. Everything that belongs to a third-party library (the detector, the
  drawing routines, number formatting, the clock, the file system) is a parameter.
\<close>

subsection \<open>Python primitives\<close>

datatype py_error = IndexError | ValueError | ZeroDivisionError | LibraryError string

text \<open>\<^verbatim>\<open>int(x)\<close> on a float truncates towards zero.\<close>

definition py_int :: "real \<Rightarrow> int" where
  "py_int x = (if 0 \<le> x then \<lfloor>x\<rfloor> else \<lceil>x\<rceil>)"

text \<open>\<^verbatim>\<open>xs[i]\<close>: negative indices count from the end, out of range raises.\<close>

definition py_index :: "'a list \<Rightarrow> int \<Rightarrow> py_error + 'a" where
  "py_index xs i =
     (if 0 \<le> i \<and> i < int (length xs) then Inr (xs ! nat i)
      else if i < 0 \<and> - int (length xs) \<le> i then Inr (xs ! nat (int (length xs) + i))
      else Inl IndexError)"

text \<open>\<^verbatim>\<open>xs[i:j]\<close> for non-negative \<open>i \<le> j\<close>.\<close>

definition py_slice :: "'a list \<Rightarrow> nat \<Rightarrow> nat \<Rightarrow> 'a list" where
  "py_slice xs i j = take (j - i) (drop i xs)"

text \<open>\<^verbatim>\<open>xs[-n:]\<close> for positive \<open>n\<close>: the last \<open>n\<close> elements, or all of them.\<close>

definition py_last_n :: "nat \<Rightarrow> 'a list \<Rightarrow> 'a list" where
  "py_last_n n xs = drop (length xs - n) xs"

text \<open>\<^verbatim>\<open>str(n)\<close> for an integer: its decimal digits, with a sign when negative.\<close>

definition digit_char :: "nat \<Rightarrow> char" where
  "digit_char d = ''0123456789'' ! d"

fun str_nat :: "nat \<Rightarrow> string" where
  "str_nat n = (if n < 10 then [digit_char n] else str_nat (n div 10) @ [digit_char (n mod 10)])"

declare str_nat.simps [simp del]

definition str_int :: "int \<Rightarrow> string" where
  "str_int i = (if i < 0 then CHR ''-'' # str_nat (nat (- i)) else str_nat (nat i))"

text \<open>\<^verbatim>\<open>int(s, 16)\<close> on a string of hexadecimal digits (the only strings the
  code passes are two-character slices of a colour code).\<close>

definition hex_digit :: "char \<Rightarrow> nat option" where
  "hex_digit c =
     (let n = (of_char c :: nat) in
      if 48 \<le> n \<and> n \<le> 57 then Some (n - 48)
      else if 97 \<le> n \<and> n \<le> 102 then Some (n - 87)
      else if 65 \<le> n \<and> n \<le> 70 then Some (n - 55)
      else None)"

fun hex_acc :: "nat \<Rightarrow> string \<Rightarrow> py_error + nat" where
  "hex_acc acc [] = Inr acc"
| "hex_acc acc (c # cs) =
     (case hex_digit c of None \<Rightarrow> Inl ValueError | Some d \<Rightarrow> hex_acc (16 * acc + d) cs)"

definition int16 :: "string \<Rightarrow> py_error + int" where
  "int16 s = (if s = [] then Inl ValueError
              else case hex_acc 0 s of Inl e \<Rightarrow> Inl e | Inr n \<Rightarrow> Inr (int n))"

text \<open>\<^verbatim>\<open>s.capitalize()\<close> on ASCII text: first character upper case, the rest lower.\<close>

definition upper_char :: "char \<Rightarrow> char" where
  "upper_char c = (let n = (of_char c :: nat) in if 97 \<le> n \<and> n \<le> 122 then char_of (n - 32) else c)"

definition lower_char :: "char \<Rightarrow> char" where
  "lower_char c = (let n = (of_char c :: nat) in if 65 \<le> n \<and> n \<le> 90 then char_of (n + 32) else c)"

definition capitalize :: "string \<Rightarrow> string" where
  "capitalize s = (case s of [] \<Rightarrow> [] | c # cs \<Rightarrow> upper_char c # map lower_char cs)"

text \<open>\<^verbatim>\<open>d.get(k, default)\<close> on a dictionary kept as an association list in
  insertion order.\<close>

definition dict_get :: "('k \<times> 'v) list \<Rightarrow> 'k \<Rightarrow> 'v \<Rightarrow> 'v" where
  "dict_get d k dflt = (case map_of d k of None \<Rightarrow> dflt | Some v \<Rightarrow> v)"

text \<open>\<^verbatim>\<open>d[k] = v\<close>: an existing key keeps its position, a new key goes last.\<close>

fun dict_set :: "('k \<times> 'v) list \<Rightarrow> 'k \<Rightarrow> 'v \<Rightarrow> ('k \<times> 'v) list" where
  "dict_set [] k v = [(k, v)]"
| "dict_set ((k', v') # d) k v = (if k' = k then (k, v) # d else (k', v') # dict_set d k v)"

subsection \<open>Module constants\<close>

definition UNDERWATER_CLASSES :: "string list" where
  "UNDERWATER_CLASSES =
     [''fish'', ''jellyfish'', ''penguin'', ''puffin'', ''shark'', ''starfish'', ''stingray'']"

definition CLASS_COLORS :: "(string \<times> string) list" where
  "CLASS_COLORS =
     [(''fish'', ''#FF6B6B''),
      (''jellyfish'', ''#4ECDC4''),
      (''penguin'', ''#45B7D1''),
      (''puffin'', ''#96CEB4''),
      (''shark'', ''#FECA57''),
      (''starfish'', ''#FF9FF3''),
      (''stingray'', ''#54A0FF'')]"

subsection \<open>Data model\<close>

text \<open>One box of the detector's output: \<^verbatim>\<open>box.conf\<close> and \<^verbatim>\<open>box.cls\<close> are
  \<^verbatim>\<open>None\<close> or one-element tensors (the field holds element 0), and
  \<^verbatim>\<open>box.xyxy[0]\<close> is a row of four floats.\<close>

record box =
  conf :: "real option"
  cls :: "real option"
  xyxy :: "real \<times> real \<times> real \<times> real"

record detections_result =
  boxes :: "box list option"

text \<open>The dictionary appended to \<^verbatim>\<open>detection_data\<close>; the key \<^verbatim>\<open>'class'\<close> is
  the field \<open>class_name\<close>.\<close>

record detection =
  class_name :: string
  confidence :: real
  bbox :: "int list"
  color :: string

text \<open>The library routines the application calls: Python's \<^verbatim>\<open>:.2f\<close> formatting,
  the shape of a pixel array (height, width), and the three drawing routines.\<close>

record 'px lib =
  fmt2f :: "real \<Rightarrow> string"
  np_shape :: "'px \<Rightarrow> nat \<times> nat"
  cv2_rectangle :: "'px \<Rightarrow> int \<times> int \<Rightarrow> int \<times> int \<Rightarrow> int \<times> int \<times> int \<Rightarrow> int \<Rightarrow> 'px"
  cv2_getTextSize :: "string \<Rightarrow> real \<Rightarrow> int \<Rightarrow> (int \<times> int) \<times> int"
  cv2_putText :: "'px \<Rightarrow> string \<Rightarrow> int \<times> int \<Rightarrow> real \<Rightarrow> int \<times> int \<times> int \<Rightarrow> int \<Rightarrow> 'px"

text \<open>The heap of pixel arrays: an address is an index, allocation appends.\<close>

type_synonym 'px heap = "'px list"

definition alloc :: "'px heap \<Rightarrow> 'px \<Rightarrow> 'px heap \<times> nat" where
  "alloc h v = (h @ [v], length h)"

text \<open>A routine that draws in place on the array at address \<open>a\<close>.\<close>

definition in_place :: "('px \<Rightarrow> 'px) \<Rightarrow> nat \<Rightarrow> 'px heap \<Rightarrow> 'px heap" where
  "in_place f a h = h[a := f (h ! a)]"

subsection \<open>create_visualization\<close>

definition get_class_name :: "int \<Rightarrow> py_error + string" where
  "get_class_name class_id =
     (if class_id < int (length UNDERWATER_CLASSES) then py_index UNDERWATER_CLASSES class_id
      else Inr (''class_'' @ str_int class_id))"

definition get_color :: "string \<Rightarrow> string" where
  "get_color cn = dict_get CLASS_COLORS cn ''#FFFFFF''"

text \<open>\<^verbatim>\<open>tuple(int(color[i:i+2], 16) for i in (1, 3, 5))\<close>\<close>

definition color_rgb_of :: "string \<Rightarrow> py_error + (int \<times> int \<times> int)" where
  "color_rgb_of c =
     (case int16 (py_slice c 1 3) of Inl e \<Rightarrow> Inl e | Inr r \<Rightarrow>
      case int16 (py_slice c 3 5) of Inl e \<Rightarrow> Inl e | Inr g \<Rightarrow>
      case int16 (py_slice c 5 7) of Inl e \<Rightarrow> Inl e | Inr b \<Rightarrow> Inr (r, g, b))"

text \<open>The body of the loop over the boxes, for one box: the heap holds the
  annotated array at address \<open>ann\<close>; the detection list grows at its end. An
  exception leaves the heap as the body had it when it was raised.\<close>

definition draw_box ::
  "'px lib \<Rightarrow> nat \<Rightarrow> nat \<Rightarrow> nat \<Rightarrow> box \<Rightarrow> 'px heap \<times> detection list
     \<Rightarrow> 'px heap \<times> (py_error + detection list)" where
  "draw_box L img_width img_height ann b st =
     (case st of (h, detection_data) \<Rightarrow>
      (case (conf b, cls b) of
         (Some cf, Some cl) \<Rightarrow>
           (let confidence_v = cf; class_id = py_int cl in
            case get_class_name class_id of Inl e \<Rightarrow> (h, Inl e) | Inr cn \<Rightarrow>
            (case xyxy b of (fx1, fy1, fx2, fy2) \<Rightarrow>
             let x1 = py_int fx1; y1 = py_int fy1; x2 = py_int fx2; y2 = py_int fy2;
                 col = get_color cn in
             case color_rgb_of col of Inl e \<Rightarrow> (h, Inl e) | Inr color_rgb \<Rightarrow>
             (let thickness = max 2 (py_int (real (min img_width img_height) / 300));
                  h1 = in_place (\<lambda>p. cv2_rectangle L p (x1, y1) (x2, y2) color_rgb thickness) ann h;
                  label = cn @ '' '' @ fmt2f L confidence_v;
                  font_scale = max (6 / 10) (real (min img_width img_height) / 1000);
                  font_thickness = max 1 (thickness div 2)
              in case cv2_getTextSize L label font_scale font_thickness of
                   ((label_w, label_h), baseline) \<Rightarrow>
                (let label_bg_top = max 0 (y1 - label_h - 10);
                     h2 = in_place (\<lambda>p. cv2_rectangle L p (x1, label_bg_top)
                                        (x1 + label_w + 10, y1) color_rgb (- 1)) ann h1;
                     h3 = in_place (\<lambda>p. cv2_putText L p label (x1 + 5, y1 - 5) font_scale
                                        (255, 255, 255) font_thickness) ann h2
                 in (h3, Inr (detection_data @
                       [\<lparr>class_name = cn, confidence = confidence_v,
                         bbox = [x1, y1, x2, y2], color = col\<rparr>]))))))
       | _ \<Rightarrow> (h, Inr detection_data)))"

fun draw_boxes ::
  "'px lib \<Rightarrow> nat \<Rightarrow> nat \<Rightarrow> nat \<Rightarrow> box list \<Rightarrow> 'px heap \<times> detection list
     \<Rightarrow> 'px heap \<times> (py_error + detection list)" where
  "draw_boxes L w hgt ann [] st = (fst st, Inr (snd st))"
| "draw_boxes L w hgt ann (b # bs) st =
     (case draw_box L w hgt ann b st of
        (h', Inl e) \<Rightarrow> (h', Inl e)
      | (h', Inr dd) \<Rightarrow> draw_boxes L w hgt ann bs (h', dd))"

text \<open>\<open>img\<close> is the address of the caller's image. \<^verbatim>\<open>np.array(image)\<close> and
  \<^verbatim>\<open>.copy()\<close> each allocate a new array with the same pixels, and
  \<^verbatim>\<open>Image.fromarray\<close> allocates the returned image. The result is the heap after
  the call and either the exception or the returned pair.\<close>

definition create_visualization ::
  "'px lib \<Rightarrow> 'px heap \<Rightarrow> nat \<Rightarrow> detections_result list \<Rightarrow> string \<Rightarrow> real
     \<Rightarrow> 'px heap \<times> (py_error + nat \<times> detection list)" where
  "create_visualization L h img results model_name inference_time =
     (case alloc h (h ! img) of (h1, img_array) \<Rightarrow>
      case np_shape L (h1 ! img_array) of (img_height, img_width) \<Rightarrow>
      case alloc h1 (h1 ! img_array) of (h2, annotated_img) \<Rightarrow>
      case py_index results 0 of Inl e \<Rightarrow> (h2, Inl e) | Inr detections \<Rightarrow>
      case (case boxes detections of
              None \<Rightarrow> (h2, Inr [])
            | Some bs \<Rightarrow> draw_boxes L img_width img_height annotated_img bs (h2, []))
      of (h3, Inl e) \<Rightarrow> (h3, Inl e)
       | (h3, Inr detection_data) \<Rightarrow>
           (case alloc h3 (h3 ! annotated_img) of (h4, out) \<Rightarrow>
              (h4, Inr (out, detection_data))))"

subsection \<open>create_detection_summary and create_detection_chart\<close>

text \<open>\<^verbatim>\<open>a / n\<close> with a float \<open>a\<close> and an int \<open>n\<close>.\<close>

definition py_truediv :: "real \<Rightarrow> int \<Rightarrow> py_error + real" where
  "py_truediv a n = (if n = 0 then Inl ZeroDivisionError else Inr (a / real_of_int n))"

definition no_objects_message :: string where
  "no_objects_message =
     [CHR 0xF0, CHR 0x9F, CHR 0x94, CHR 0x8D] @ '' **No objects detected**\<newline>\<newline>'' @
     ''Try adjusting the confidence threshold or uploading a different image.''"

definition CLASS_EMOJI :: "(string \<times> string) list" where
  "CLASS_EMOJI =
     [(''fish'', [CHR 0xF0, CHR 0x9F, CHR 0x90, CHR 0xA0]),
      (''jellyfish'', [CHR 0xF0, CHR 0x9F, CHR 0xAA, CHR 0xBC]),
      (''penguin'', [CHR 0xF0, CHR 0x9F, CHR 0x90, CHR 0xA7]),
      (''puffin'', [CHR 0xF0, CHR 0x9F, CHR 0xA6, CHR 0x85]),
      (''shark'', [CHR 0xF0, CHR 0x9F, CHR 0xA6, CHR 0x88]),
      (''starfish'', [CHR 0xE2, CHR 0xAD, CHR 0x90]),
      (''stingray'', [CHR 0xF0, CHR 0x9F, CHR 0x90, CHR 0x99])]"

definition DEFAULT_EMOJI :: string where
  "DEFAULT_EMOJI = [CHR 0xF0, CHR 0x9F, CHR 0x94, CHR 0xB9]"

text \<open>The counting loop shared by the summary and the chart:
  \<^verbatim>\<open>class_counts[class_name] = class_counts.get(class_name, 0) + 1\<close>.\<close>

fun count_classes :: "(string \<times> int) list \<Rightarrow> detection list \<Rightarrow> (string \<times> int) list" where
  "count_classes class_counts [] = class_counts"
| "count_classes class_counts (d # ds) =
     count_classes
       (dict_set class_counts (class_name d) (dict_get class_counts (class_name d) 0 + 1)) ds"

definition summary_line :: "string \<times> int \<Rightarrow> string" where
  "summary_line kv =
     (case kv of (cn, count) \<Rightarrow>
        dict_get CLASS_EMOJI cn DEFAULT_EMOJI @ '' **'' @ capitalize cn @ '':** '' @
        str_int count @ ''\<newline>'')"

definition create_detection_summary ::
  "'px lib \<Rightarrow> detection list \<Rightarrow> string \<Rightarrow> real \<Rightarrow> py_error + string" where
  "create_detection_summary L detection_data model_name inference_t =
     (if detection_data = [] then Inr no_objects_message
      else
        let total_detections = int (length detection_data) in
        case py_truediv (sum_list (map confidence detection_data)) total_detections of
          Inl e \<Rightarrow> Inl e
        | Inr avg_confidence \<Rightarrow>
            (let class_counts = count_classes [] detection_data;
                 summary0 =
                   ''## '' @ [CHR 0xF0, CHR 0x9F, CHR 0x8E, CHR 0xAF] @ '' Detection Summary\<newline>'' @
                   ''**Model Used:** '' @ model_name @ ''\<newline>'' @
                   ''**Inference Time:** '' @ fmt2f L inference_t @ ''s\<newline>'' @
                   ''**Total Objects:** '' @ str_int total_detections @ ''\<newline>'' @
                   ''**Average Confidence:** '' @ fmt2f L avg_confidence @ ''\<newline>\<newline>'' @
                   ''### '' @ [CHR 0xF0, CHR 0x9F, CHR 0x93, CHR 0x8A] @ '' Detected Objects:\<newline>''
             in Inr (foldl (\<lambda>summary kv. summary @ summary_line kv) summary0 class_counts)))"

text \<open>The bar chart as the data handed to the plotting library.\<close>

record chart =
  chart_classes :: "string list"
  chart_counts :: "int list"
  chart_colors :: "string list"

definition create_detection_chart :: "detection list \<Rightarrow> chart option" where
  "create_detection_chart detection_data =
     (if detection_data = [] then None
      else
        let class_counts = count_classes [] detection_data;
            classes = map fst class_counts;
            counts = map snd class_counts
        in Some \<lparr>chart_classes = classes, chart_counts = counts,
                 chart_colors = map (\<lambda>c. dict_get CLASS_COLORS c ''#888888'') classes\<rparr>)"

subsection \<open>Application state\<close>

text \<open>A loaded detector: called with the image and the two thresholds, it returns
  its result list or raises.\<close>

type_synonym 'px yolo = "'px \<Rightarrow> real \<Rightarrow> real \<Rightarrow> py_error + detections_result list"

record history_entry =
  timestamp :: string
  model :: string
  detections :: int
  inference_time :: real
  objects :: "detection list"

text \<open>The module's globals (\<open>models\<close> is a dictionary in insertion order), the
  heap of pixel arrays and the lines printed so far.\<close>

record 'px app =
  models :: "(string \<times> 'px yolo) list"
  available_models :: "string list"
  detection_history :: "history_entry list"
  heap :: "'px heap"
  stdout :: "string list"

text \<open>The clock readings of one call: \<^verbatim>\<open>time.time()\<close> before and after the
  detector runs, and \<^verbatim>\<open>datetime.now().strftime("%Y-%m-%d %H:%M:%S")\<close>.\<close>

record clock =
  t_start :: real
  t_end :: real
  now_text :: string

subsection \<open>detect_objects\<close>

text \<open>The early returns are 4-tuples, the return after inference is a 3-tuple.\<close>

datatype detect_return =
    Return4 "nat option" string "chart option" string
  | Return3 nat string string

text \<open>\<^verbatim>\<open>detection_history.pop(0)\<close> runs only under \<^verbatim>\<open>len(detection_history) > 50\<close>,
  where the list is not empty: it removes the first element.\<close>

definition keep_last_50 :: "history_entry list \<Rightarrow> history_entry list" where
  "keep_last_50 hist = (if length hist > 50 then tl hist else hist)"

definition detect_objects ::
  "'px lib \<Rightarrow> clock \<Rightarrow> nat option \<Rightarrow> string \<Rightarrow> real \<Rightarrow> real \<Rightarrow> 'px app
     \<Rightarrow> 'px app \<times> (py_error + detect_return)" where
  "detect_objects L ck image_arg model_choice confidence_threshold iou_threshold s =
     (case image_arg of
        None \<Rightarrow> (s, Inr (Return4 None ''Please upload an image'' None []))
      | Some img \<Rightarrow>
     (case map_of (models s) model_choice of
        None \<Rightarrow> (s, Inr (Return4 None (''Model '' @ model_choice @ '' not available'') None []))
      | Some mdl \<Rightarrow>
     (let start_time = t_start ck in
      case mdl (heap s ! img) confidence_threshold iou_threshold of
        Inl e \<Rightarrow> (s, Inl e)
      | Inr results \<Rightarrow>
     (let inference_t = t_end ck - start_time in
      case create_visualization L (heap s) img results model_choice inference_t of
        (h', Inl e) \<Rightarrow> (s\<lparr>heap := h'\<rparr>, Inl e)
      | (h', Inr (annotated_image, detection_data)) \<Rightarrow>
     (case create_detection_summary L detection_data model_choice inference_t of
        Inl e \<Rightarrow> (s\<lparr>heap := h'\<rparr>, Inl e)
      | Inr summary \<Rightarrow>
     (let chart_v = create_detection_chart detection_data;
          appended = detection_history s @
            [\<lparr>timestamp = now_text ck, model = model_choice,
              detections = int (length detection_data),
              inference_time = inference_t, objects = detection_data\<rparr>]
      in (s\<lparr>heap := h', detection_history := keep_last_50 appended\<rparr>,
          Inr (Return3 annotated_image summary
                 (''Detection completed in '' @ fmt2f L inference_t @ ''s'')))))))))"

subsection \<open>get_detection_history\<close>

definition history_header :: string where
  "history_header =
     ''## '' @ [CHR 0xF0, CHR 0x9F, CHR 0x93, CHR 0x88] @ '' Detection History\<newline>\<newline>''"

definition history_line :: "'px lib \<Rightarrow> nat \<Rightarrow> history_entry \<Rightarrow> string" where
  "history_line L i r =
     ''**'' @ str_int (int i + 1) @ ''.** '' @ timestamp r @ '' | '' @
     ''Model: '' @ model r @ '' | '' @
     ''Objects: '' @ str_int (detections r) @ '' | '' @
     ''Time: '' @ fmt2f L (inference_time r) @ ''s\<newline>''"

text \<open>The function reads the global buffer; the state is returned as the call
  leaves it.\<close>

definition get_detection_history :: "'px lib \<Rightarrow> 'px app \<Rightarrow> 'px app \<times> string" where
  "get_detection_history L s =
     (if detection_history s = [] then (s, ''No detection history available.'')
      else
        (s, foldl (\<lambda>history_text ir. history_text @ history_line L (fst ir) (snd ir))
              history_header
              (enumerate 0 (rev (py_last_n 10 (detection_history s))))))"

subsection \<open>The user interface as a driver\<close>

text \<open>The page calls \<^verbatim>\<open>detect_objects\<close> once per click, one call at a time; a call
  that raises is reported by the page and the process goes on with the state the
  call left. A call is the clock readings and the four arguments.\<close>

type_synonym call = "clock \<times> nat option \<times> string \<times> real \<times> real"

definition detect_call :: "'px lib \<Rightarrow> call \<Rightarrow> 'px app \<Rightarrow> 'px app \<times> (py_error + detect_return)" where
  "detect_call L c s =
     (case c of (ck, image_arg, model_choice, confidence_threshold, iou_threshold) \<Rightarrow>
        detect_objects L ck image_arg model_choice confidence_threshold iou_threshold s)"

fun run_calls :: "'px lib \<Rightarrow> call list \<Rightarrow> 'px app \<Rightarrow> 'px app" where
  "run_calls L [] s = s"
| "run_calls L (c # cs) s = run_calls L cs (fst (detect_call L c s))"

text \<open>The entry that one call builds for the buffer, when the call gets as far as
  \<^verbatim>\<open>detection_history.append\<close>; \<open>None\<close> for a call that returns early or raises
  before.\<close>

definition run_entry :: "'px lib \<Rightarrow> call \<Rightarrow> 'px app \<Rightarrow> history_entry option" where
  "run_entry L c s =
     (case c of (ck, image_arg, model_choice, confidence_threshold, iou_threshold) \<Rightarrow>
      (case image_arg of None \<Rightarrow> None | Some img \<Rightarrow>
       case map_of (models s) model_choice of None \<Rightarrow> None | Some mdl \<Rightarrow>
       case mdl (heap s ! img) confidence_threshold iou_threshold of
         Inl e \<Rightarrow> None
       | Inr results \<Rightarrow>
           (case create_visualization L (heap s) img results model_choice
                   (t_end ck - t_start ck) of
              (h', Inl e) \<Rightarrow> None
            | (h', Inr (annotated_image, detection_data)) \<Rightarrow>
                Some \<lparr>timestamp = now_text ck, model = model_choice,
                      detections = int (length detection_data),
                      inference_time = t_end ck - t_start ck,
                      objects = detection_data\<rparr>)))"

text \<open>The entries built by the calls of a run, in the order of the calls.\<close>

fun appended_entries :: "'px lib \<Rightarrow> call list \<Rightarrow> 'px app \<Rightarrow> history_entry list" where
  "appended_entries L [] s = []"
| "appended_entries L (c # cs) s =
     (case run_entry L c s of None \<Rightarrow> [] | Some e \<Rightarrow> [e]) @
     appended_entries L cs (fst (detect_call L c s))"

subsection \<open>Module start: the model registry\<close>

definition MODEL_PATHS :: "(string \<times> string) list" where
  "MODEL_PATHS =
     [(''YOLOv8n'', ''../yolov8n/runs/detect_train/weights/best.pt''),
      (''YOLOv8s'', ''../yolov8s/runs/detect_train/weights/best.pt'')]"

text \<open>What the start of the module asks of its host: \<^verbatim>\<open>os.path.exists\<close>, and the
  constructor \<^verbatim>\<open>YOLO(path)\<close>, which returns a detector or raises an
  \<^verbatim>\<open>Exception\<close> (\<open>Inl\<close> holds its text).\<close>

record 'px host =
  path_exists :: "string \<Rightarrow> bool"
  YOLO :: "string \<Rightarrow> string + 'px yolo"

definition loaded_message :: "string \<Rightarrow> string \<Rightarrow> string" where
  "loaded_message model_name model_path =
     [CHR 0xE2, CHR 0x9C, CHR 0x85] @ '' Loaded '' @ model_name @ '' model: '' @ model_path"

definition failed_message :: "string \<Rightarrow> string \<Rightarrow> string" where
  "failed_message model_name e =
     [CHR 0xE2, CHR 0x9D, CHR 0x8C] @ '' Failed to load '' @ model_name @ '' model: '' @ e"

definition not_found_message :: "string \<Rightarrow> string \<Rightarrow> string" where
  "not_found_message model_name model_path =
     [CHR 0xE2, CHR 0x9A, CHR 0xA0, CHR 0xEF, CHR 0xB8, CHR 0x8F] @ '' '' @ model_name @
     '' model not found: '' @ model_path"

definition default_message :: string where
  "default_message =
     [CHR 0xE2, CHR 0x9A, CHR 0xA0, CHR 0xEF, CHR 0xB8, CHR 0x8F] @ '' Using default YOLO models''"

text \<open>The loop over \<^verbatim>\<open>MODEL_PATHS.items()\<close>; the state is \<open>models\<close>,
  \<open>available_models\<close> and the printed lines.\<close>

fun load_custom_models ::
  "'px host \<Rightarrow> (string \<times> string) list
     \<Rightarrow> (string \<times> 'px yolo) list \<times> string list \<times> string list
     \<Rightarrow> (string \<times> 'px yolo) list \<times> string list \<times> string list" where
  "load_custom_models H [] st = st"
| "load_custom_models H ((model_name, model_path) # rest) (ms, av, out) =
     (if path_exists H model_path then
        (case YOLO H model_path of
           Inr m \<Rightarrow>
             load_custom_models H rest
               (dict_set ms model_name m, av @ [model_name],
                out @ [loaded_message model_name model_path])
         | Inl e \<Rightarrow>
             load_custom_models H rest (ms, av, out @ [failed_message model_name e]))
      else load_custom_models H rest (ms, av, out @ [not_found_message model_name model_path]))"

text \<open>The module's top-level code up to \<^verbatim>\<open>detection_history = []\<close>. The fall-back
  constructors are not inside a \<^verbatim>\<open>try\<close>: an exception there ends the start.\<close>

definition module_init :: "'px host \<Rightarrow> 'px heap \<Rightarrow> py_error + 'px app" where
  "module_init H h0 =
     (case load_custom_models H MODEL_PATHS ([], [], []) of (ms, av, out) \<Rightarrow>
        if av = [] then
          (case YOLO H ''yolov8n.pt'' of Inl e \<Rightarrow> Inl (LibraryError e) | Inr dn \<Rightarrow>
           case YOLO H ''yolov8s.pt'' of Inl e \<Rightarrow> Inl (LibraryError e) | Inr ds \<Rightarrow>
             Inr \<lparr>models = dict_set (dict_set ms ''YOLOv8n'' dn) ''YOLOv8s'' ds,
                  available_models = [''YOLOv8n'', ''YOLOv8s''],
                  detection_history = [], heap = h0,
                  stdout = out @ [default_message]\<rparr>)
        else
          Inr \<lparr>models = ms, available_models = av, detection_history = [], heap = h0,
               stdout = out\<rparr>)"

text \<open>The names of the custom models that load.\<close>

definition custom_loaded :: "'px host \<Rightarrow> string list" where
  "custom_loaded H =
     map fst (filter (\<lambda>np. path_exists H (snd np) \<and> isl (YOLO H (snd np)) = False) MODEL_PATHS)"

subsection \<open>The training scripts\<close>

text \<open>\<^verbatim>\<open>os.path.join(a, b)\<close> and \<^verbatim>\<open>os.path.dirname(p)\<close> on POSIX paths.\<close>

definition os_path_join :: "string \<Rightarrow> string \<Rightarrow> string" where
  "os_path_join a b =
     (if b \<noteq> [] \<and> hd b = CHR ''/'' then b
      else if a = [] \<or> last a = CHR ''/'' then a @ b
      else a @ ''/'' @ b)"

definition os_path_dirname :: "string \<Rightarrow> string" where
  "os_path_dirname p =
     (let head = rev (dropWhile (\<lambda>c. c \<noteq> CHR ''/'') (rev p)) in
      if head \<noteq> [] \<and> head \<noteq> replicate (length head) (CHR ''/'')
      then rev (dropWhile (\<lambda>c. c = CHR ''/'') (rev head))
      else head)"

text \<open>Keyword arguments of the library calls, and the values of the label map.\<close>

datatype arg = AInt int | AReal real | AStr string | ABool bool

datatype yaml = YStr string | YInt int | YList "yaml list"

text \<open>What a training script asks of its host: \<^verbatim>\<open>__file__\<close>,
  \<^verbatim>\<open>os.path.abspath\<close>, the date as \<^verbatim>\<open>%Y%m%d\<close>, the CUDA queries, the \<^verbatim>\<open>:.2f\<close>
  formatting and the four library calls. A library call returns or raises;
  \<^verbatim>\<open>model.val\<close> returns results whose \<^verbatim>\<open>.box.map50\<close> is a number or raises on
  access (\<open>Inl\<close> holds the text of that exception).\<close>

record train_host =
  script_file :: string
  os_path_abspath :: "string \<Rightarrow> string"
  today_text :: string
  cuda_is_available :: bool
  cuda_device_name :: string
  fmt2 :: "real \<Rightarrow> string"
  YOLO_new :: "string \<Rightarrow> py_error option"
  model_train :: "(string \<times> arg) list \<Rightarrow> py_error option"
  model_val :: "(string \<times> arg) list \<Rightarrow> py_error + (string + real)"
  model_predict :: "(string \<times> arg) list \<Rightarrow> py_error option"

text \<open>The world a script acts on: the files it writes (a file generated by
  \<^verbatim>\<open>yaml.dump\<close> is kept as the dictionary dumped) and the lines printed.\<close>

record world =
  files :: "string \<rightharpoonup> (string \<times> yaml) list"
  printed :: "string list"

definition say :: "string \<Rightarrow> world \<Rightarrow> world" where
  "say line w = w\<lparr>printed := printed w @ [line]\<rparr>"

text \<open>The \<^verbatim>\<open>try\<close> block that prints mAP50.\<close>

definition print_map50 :: "train_host \<Rightarrow> string \<Rightarrow> string \<Rightarrow> (string + real) \<Rightarrow> world \<Rightarrow> world" where
  "print_map50 H label failure r w =
     (case r of
        Inr map50 \<Rightarrow> say (label @ fmt2 H (map50 * 100) @ '' out of 100'') w
      | Inl e \<Rightarrow> say (failure @ '' '' @ e) w)"

text \<open>Steps 2 and 3 of \<^verbatim>\<open>main\<close>, the same text in both scripts: validation,
  then prediction on the test images.\<close>

definition val_args :: "(string \<times> arg) list" where
  "val_args =
     [(''data'', AStr ''data.yaml''), (''imgsz'', AInt 640), (''project'', AStr ''runs''),
      (''name'', AStr ''detect_val''), (''exist_ok'', ABool True), (''device'', AInt 0)]"

definition test_images_dir :: "train_host \<Rightarrow> string" where
  "test_images_dir H =
     os_path_abspath H (os_path_join (os_path_dirname (script_file H)) ''test/images'')"

definition predicted_images_dir :: "train_host \<Rightarrow> string" where
  "predicted_images_dir H =
     os_path_abspath H (os_path_join (os_path_dirname (script_file H))
                          (''predicted_images_'' @ today_text H))"

definition predict_args :: "train_host \<Rightarrow> (string \<times> arg) list" where
  "predict_args H =
     [(''source'', AStr (test_images_dir H)), (''save'', ABool True),
      (''project'', AStr (predicted_images_dir H)), (''name'', AStr []),
      (''exist_ok'', ABool True), (''device'', AInt 0)]"

definition validate_and_predict :: "train_host \<Rightarrow> world \<Rightarrow> world \<times> (py_error + unit)" where
  "validate_and_predict H w =
     (case model_val H val_args of
        Inl e \<Rightarrow> (w, Inl e)
      | Inr val_results \<Rightarrow>
     (let w1 = print_map50 H ''Validation mAP50: ''
                 ''Could not extract mAP50 from validation results.'' val_results w
      in case model_predict H (predict_args H) of
           Some e \<Rightarrow> (w1, Inl e)
         | None \<Rightarrow>
             (say (''Predictions saved to: '' @ predicted_images_dir H)
                (say ''Training, validation, and prediction complete!'' w1), Inr ())))"

text \<open>Step 4 of \<^verbatim>\<open>main\<close>, the same text in both scripts: the label map is built
  and written, then the test set is validated against it.\<close>

definition test_yaml :: "train_host \<Rightarrow> (string \<times> yaml) list" where
  "test_yaml H =
     [(''path'', YStr (os_path_abspath H (os_path_join (os_path_dirname (script_file H)) ''test''))),
      (''train'', YStr []),
      (''val'', YStr ''images''),
      (''nc'', YInt 7),
      (''names'', YList [YStr ''fish'', YStr ''jellyfish'', YStr ''penguin'', YStr ''puffin'',
                         YStr ''shark'', YStr ''starfish'', YStr ''stingray''])]"

definition test_yaml_path :: "train_host \<Rightarrow> string" where
  "test_yaml_path H =
     os_path_abspath H (os_path_join (os_path_dirname (script_file H)) ''test_data.yaml'')"

definition evaluate_test_set :: "train_host \<Rightarrow> world \<Rightarrow> world \<times> (py_error + unit)" where
  "evaluate_test_set H w =
     (let w1 = w\<lparr>files := (files w)(test_yaml_path H \<mapsto> test_yaml H)\<rparr> in
      case model_val H
             [(''data'', AStr (test_yaml_path H)), (''imgsz'', AInt 640),
              (''project'', AStr ''runs''), (''name'', AStr ''detect_test_val''),
              (''exist_ok'', ABool True), (''device'', AInt 0)] of
        Inl e \<Rightarrow> (w1, Inl e)
      | Inr test_val_results \<Rightarrow>
          (print_map50 H ''Test set mAP50: ''
             ''Could not extract mAP50 from test set validation results.'' test_val_results w1,
           Inr ()))"

text \<open>\<^verbatim>\<open>train_and_test_yolov8.py\<close>\<close>

definition train_args_yolov8 :: "(string \<times> arg) list" where
  "train_args_yolov8 =
     [(''data'', AStr ''data.yaml''), (''epochs'', AInt 100), (''imgsz'', AInt 640),
      (''project'', AStr ''runs''), (''name'', AStr ''detect_train''),
      (''exist_ok'', ABool True), (''device'', AInt 0), (''patience'', AInt 10),
      (''degrees'', AInt 10), (''scale'', AReal (1 / 2)), (''shear'', AInt 2),
      (''perspective'', AReal (1 / 1000)), (''flipud'', AReal (1 / 2)),
      (''fliplr'', AReal (1 / 2)), (''hsv_h'', AReal (15 / 1000)),
      (''hsv_s'', AReal (7 / 10)), (''hsv_v'', AReal (4 / 10)),
      (''mosaic'', AReal 1), (''mixup'', AReal (2 / 10))]"

definition main_train_and_test_yolov8 :: "train_host \<Rightarrow> world \<Rightarrow> world \<times> (py_error + unit)" where
  "main_train_and_test_yolov8 H w =
     (let w0 = say (if cuda_is_available H then ''Using GPU: '' @ cuda_device_name H
                    else ''Using CPU'')
                 (say (''CUDA available: '' @ (if cuda_is_available H then ''True'' else ''False'')) w)
      in case YOLO_new H ''yolov8s.pt'' of
           Some e \<Rightarrow> (w0, Inl e)
         | None \<Rightarrow>
      (case model_train H train_args_yolov8 of
         Some e \<Rightarrow> (w0, Inl e)
       | None \<Rightarrow>
      (case validate_and_predict H w0 of
         (w1, Inl e) \<Rightarrow> (w1, Inl e)
       | (w1, Inr u) \<Rightarrow> evaluate_test_set H w1)))"

text \<open>\<^verbatim>\<open>train_test_yolov8s.py\<close>\<close>

definition train_args_yolov8s :: "(string \<times> arg) list" where
  "train_args_yolov8s =
     [(''data'', AStr ''data.yaml''), (''epochs'', AInt 100), (''imgsz'', AInt 640),
      (''batch'', AInt 16), (''project'', AStr ''runs''), (''name'', AStr ''detect_train''),
      (''exist_ok'', ABool True), (''device'', AInt 0)]"

definition main_train_test_yolov8s :: "train_host \<Rightarrow> world \<Rightarrow> world \<times> (py_error + unit)" where
  "main_train_test_yolov8s H w =
     (case YOLO_new H ''yolov8s.pt'' of
        Some e \<Rightarrow> (w, Inl e)
      | None \<Rightarrow>
     (case model_train H train_args_yolov8s of
        Some e \<Rightarrow> (w, Inl e)
      | None \<Rightarrow>
     (case validate_and_predict H w of
        (w1, Inl e) \<Rightarrow> (w1, Inl e)
      | (w1, Inr u) \<Rightarrow> evaluate_test_set H w1)))"

subsection \<open>Vocabulary of the proofs\<close>

text \<open>The record that the loop body appends for a box: the box has a score and a
  class, and the record's fields are computed from the box as the body does.\<close>

definition drawn_from :: "box \<Rightarrow> detection \<Rightarrow> bool" where
  "drawn_from b d =
     (case (conf b, cls b) of
        (Some cf, Some cl) \<Rightarrow>
          confidence d = cf \<and>
          get_class_name (py_int cl) = Inr (class_name d) \<and>
          bbox d = (case xyxy b of (fx1, fy1, fx2, fy2) \<Rightarrow>
                      [py_int fx1, py_int fy1, py_int fx2, py_int fy2]) \<and>
          color d = get_color (class_name d)
      | _ \<Rightarrow> False)"

text \<open>What the loop body draws for one record, as a function on pixels, in the
  words of the renderer's description: the box outline in the colour of the
  record's class name, the filled label background in the same colour, and the
  label text (class name and score) in white.\<close>

definition paint_record :: "'px lib \<Rightarrow> nat \<Rightarrow> nat \<Rightarrow> detection \<Rightarrow> 'px \<Rightarrow> 'px" where
  "paint_record L img_width img_height d p =
     (case (bbox d, color_rgb_of (get_color (class_name d))) of
        ([x1, y1, x2, y2], Inr color_rgb) \<Rightarrow>
          (let thickness = max 2 (py_int (real (min img_width img_height) / 300));
               label = class_name d @ '' '' @ fmt2f L (confidence d);
               font_scale = max (6 / 10) (real (min img_width img_height) / 1000);
               font_thickness = max 1 (thickness div 2);
               label_w = fst (fst (cv2_getTextSize L label font_scale font_thickness));
               label_h = snd (fst (cv2_getTextSize L label font_scale font_thickness));
               label_bg_top = max 0 (y1 - label_h - 10)
           in cv2_putText L
                (cv2_rectangle L
                   (cv2_rectangle L p (x1, y1) (x2, y2) color_rgb thickness)
                   (x1, label_bg_top) (x1 + label_w + 10, y1) color_rgb (- 1))
                label (x1 + 5, y1 - 5) font_scale (255, 255, 255) font_thickness)
      | _ \<Rightarrow> p)"

subsection \<open>Concrete inputs\<close>

text \<open>A library instance whose pixel arrays are counters of drawing operations, a
  detector that finds one shark, one that reports class 7, and states built from
  them.\<close>

definition demo_lib :: "nat lib" where
  "demo_lib =
     \<lparr>fmt2f = (\<lambda>x. ''0.50''),
      np_shape = (\<lambda>p. (480, 640)),
      cv2_rectangle = (\<lambda>p a b c t. Suc p),
      cv2_getTextSize = (\<lambda>l fs ft. ((60, 12), 4)),
      cv2_putText = (\<lambda>p l org fs c t. Suc p)\<rparr>"

definition shark_box :: box where
  "shark_box = \<lparr>conf = Some (9 / 10), cls = Some 4, xyxy = (21 / 2, 81 / 4, 110, 220)\<rparr>"

definition class7_box :: box where
  "class7_box = \<lparr>conf = Some (9 / 10), cls = Some 7, xyxy = (1, 2, 3, 4)\<rparr>"

definition shark_record :: detection where
  "shark_record =
     \<lparr>class_name = ''shark'', confidence = 9 / 10, bbox = [10, 20, 110, 220],
      color = ''#FECA57''\<rparr>"

definition class7_record :: detection where
  "class7_record =
     \<lparr>class_name = ''class_7'', confidence = 9 / 10, bbox = [1, 2, 3, 4],
      color = ''#FFFFFF''\<rparr>"

definition shark_detector :: "nat yolo" where
  "shark_detector = (\<lambda>p c i. Inr [\<lparr>boxes = Some [shark_box]\<rparr>])"

definition demo_clock :: clock where
  "demo_clock = \<lparr>t_start = 1, t_end = 3 / 2, now_text = ''2025-01-01 12:00:00''\<rparr>"

definition old_entry :: history_entry where
  "old_entry =
     \<lparr>timestamp = ''2024-12-31 09:00:00'', model = ''YOLOv8s'', detections = 0,
      inference_time = 1 / 4, objects = []\<rparr>"

definition shark_entry :: history_entry where
  "shark_entry =
     \<lparr>timestamp = ''2025-01-01 12:00:00'', model = ''YOLOv8n'', detections = 1,
      inference_time = 1 / 2, objects = [shark_record]\<rparr>"

definition full_app :: "nat app" where
  "full_app =
     \<lparr>models = [(''YOLOv8n'', shark_detector)], available_models = [''YOLOv8n''],
      detection_history = replicate 50 old_entry, heap = [0], stdout = []\<rparr>"

definition demo_call :: call where
  "demo_call = (demo_clock, Some 0, ''YOLOv8n'', 1 / 4, 9 / 20)"

text \<open>A host with no custom weights, and one whose first weight file loads and
  whose second is there but does not load.\<close>

definition bare_host :: "nat host" where
  "bare_host = \<lparr>path_exists = (\<lambda>p. False), YOLO = (\<lambda>p. Inr shark_detector)\<rparr>"

definition half_host :: "nat host" where
  "half_host =
     \<lparr>path_exists = (\<lambda>p. True),
      YOLO = (\<lambda>p. if p = ''../yolov8s/runs/detect_train/weights/best.pt''
                   then Inl ''corrupt file'' else Inr shark_detector)\<rparr>"

text \<open>A training host on which every library call returns, and the empty world.\<close>

definition demo_train_host :: train_host where
  "demo_train_host =
     \<lparr>script_file = ''/proj/train.py'', os_path_abspath = (\<lambda>p. p),
      today_text = ''20250101'', cuda_is_available = False, cuda_device_name = [],
      fmt2 = (\<lambda>x. ''50.00''), YOLO_new = (\<lambda>p. None), model_train = (\<lambda>a. None),
      model_val = (\<lambda>a. Inr (Inr (1 / 2))), model_predict = (\<lambda>a. None)\<rparr>"

definition empty_world :: world where
  "empty_world = \<lparr>files = Map.empty, printed = []\<rparr>"

text \<open>A library instance whose pixel arrays are the lists of the drawing commands
  applied to them.\<close>

datatype draw_cmd =
    Rectangle "int \<times> int" "int \<times> int" "int \<times> int \<times> int" int
  | Text string "int \<times> int" "int \<times> int \<times> int" int

definition trace_lib :: "draw_cmd list lib" where
  "trace_lib =
     \<lparr>fmt2f = (\<lambda>x. ''0.90''),
      np_shape = (\<lambda>p. (480, 640)),
      cv2_rectangle = (\<lambda>p a b c t. p @ [Rectangle a b c t]),
      cv2_getTextSize = (\<lambda>l fs ft. ((60, 12), 4)),
      cv2_putText = (\<lambda>p l org fs c t. p @ [Text l org c t])\<rparr>"

text \<open>A box of class 2 with fractional class value and coordinates, and its record.\<close>

definition penguin_box :: box where
  "penguin_box = \<lparr>conf = Some (4 / 5), cls = Some (29 / 10), xyxy = (- (1 / 2), 7 / 2, 50, 60)\<rparr>"

definition penguin_record :: detection where
  "penguin_record =
     \<lparr>class_name = ''penguin'', confidence = 4 / 5, bbox = [0, 3, 50, 60],
      color = ''#45B7D1''\<rparr>"

definition class7_detector :: "nat yolo" where
  "class7_detector = (\<lambda>p c i. Inr [\<lparr>boxes = Some [class7_box]\<rparr>])"

text \<open>A host whose two custom weight files load (to different detectors) and on
  which the generic weights cannot be loaded.\<close>

definition custom_host :: "nat host" where
  "custom_host =
     \<lparr>path_exists = (\<lambda>p. True),
      YOLO = (\<lambda>p. if p = ''../yolov8n/runs/detect_train/weights/best.pt'' then Inr shark_detector
                   else if p = ''../yolov8s/runs/detect_train/weights/best.pt''
                   then Inr class7_detector
                   else Inl ''no network'')\<rparr>"

text \<open>A state with twelve entries in the buffer, the most recent last.\<close>

definition twelve_app :: "nat app" where
  "twelve_app = full_app\<lparr>detection_history := replicate 11 old_entry @ [shark_entry]\<rparr>"

section \<open>Properties\<close>

subsection \<open>Lists and slices\<close>

lemma py_last_n_length: "length (py_last_n n xs) = min n (length xs)"
  by (simp add: py_last_n_def)

lemma py_last_n_append: "py_last_n n (py_last_n n xs @ ys) = py_last_n n (xs @ ys)"
  by (cases "n \<le> length xs") (simp_all add: py_last_n_def add.commute)

lemma py_index_mem: "py_index xs i = Inr x \<Longrightarrow> x \<in> set xs"
proof -
  assume a: "py_index xs i = Inr x"
  define j where "j = (if i < 0 then int (length xs) + i else i)"
  from a have "0 \<le> j \<and> j < int (length xs) \<and> x = xs ! nat j"
    by (auto simp: py_index_def j_def split: if_splits)
  then have "nat j < length xs" and "x = xs ! nat j" by auto
  then show ?thesis by simp
qed

lemma foldl_append_concat: "foldl (\<lambda>acc x. acc @ f x) a xs = a @ concat (map f xs)"
  by (induction xs arbitrary: a) auto

lemma enumerate_as_map: "enumerate 0 ys = map (\<lambda>k. (k, ys ! k)) [0..<length ys]"
  by (rule nth_equalityI) (simp_all add: nth_enumerate_eq)

lemma rev_py_last_n_nth:
  assumes "k < min n (length xs)"
  shows "rev (py_last_n n xs) ! k = xs ! (length xs - 1 - k)"
proof -
  have "rev (py_last_n n xs) = take (length xs - (length xs - n)) (rev xs)"
    by (simp add: py_last_n_def rev_drop)
  moreover have "k < length xs - (length xs - n)"
    using assms by arith
  ultimately have "rev (py_last_n n xs) ! k = rev xs ! k"
    by simp
  also have "\<dots> = xs ! (length xs - 1 - k)"
    using assms by (simp add: rev_nth)
  finally show ?thesis .
qed

lemma map_of_replace_values:
  "map_of (map (\<lambda>nd. (fst nd, v)) ms) k = map_option (\<lambda>_. v) (map_of ms k)"
  by (induction ms) auto

subsection \<open>The history buffer\<close>

lemma keep_last_50_last_n: "length hist \<le> 51 \<Longrightarrow> keep_last_50 hist = py_last_n 50 hist"
proof (cases "length hist > 50")
  case True
  assume "length hist \<le> 51"
  with True have "length hist - 50 = Suc 0" by arith
  with True show ?thesis by (simp add: keep_last_50_def py_last_n_def drop_Suc)
next
  case False
  then show ?thesis by (simp add: keep_last_50_def py_last_n_def)
qed

lemma keep_last_50_snoc:
  "keep_last_50 (hist @ [e]) = (if 50 \<le> length hist then tl hist else hist) @ [e]"
  by (cases hist) (auto simp: keep_last_50_def)

lemma create_detection_summary_returns:
  "\<exists>msg. create_detection_summary L dd mn t = Inr msg"
  by (simp add: create_detection_summary_def py_truediv_def Let_def)

lemma create_detection_summary_not_Inl: "create_detection_summary L dd mn t \<noteq> Inl e"
  using create_detection_summary_returns [of L dd mn t] by auto

lemma detect_call_history:
  "detection_history (fst (detect_call L c s)) =
     (case run_entry L c s of
        None \<Rightarrow> detection_history s
      | Some e \<Rightarrow> keep_last_50 (detection_history s @ [e]))"
proof -
  obtain ck ia mc ct it where c: "c = (ck, ia, mc, ct, it)" by (cases c) auto
  show ?thesis
    unfolding c detect_call_def run_entry_def detect_objects_def
    by (auto simp: Let_def create_detection_summary_not_Inl
             split: option.splits sum.splits prod.splits)
qed

lemma run_calls_history:
  "length (detection_history s) \<le> 50 \<Longrightarrow>
     detection_history (run_calls L cs s) =
       py_last_n 50 (detection_history s @ appended_entries L cs s)"
proof (induction cs arbitrary: s)
  case Nil
  then show ?case by (simp add: py_last_n_def)
next
  case (Cons c cs)
  let ?s' = "fst (detect_call L c s)"
  let ?new = "case run_entry L c s of None \<Rightarrow> [] | Some e \<Rightarrow> [e]"
  have "length (detection_history s @ ?new) \<le> 51"
    using Cons.prems by (simp split: option.splits)
  then have step: "detection_history ?s' = py_last_n 50 (detection_history s @ ?new)"
    using Cons.prems
    by (auto simp: detect_call_history keep_last_50_last_n py_last_n_def split: option.splits)
  then have "length (detection_history ?s') \<le> 50"
    by (simp only: py_last_n_length min.cobounded1)
  then have "detection_history (run_calls L cs ?s') =
      py_last_n 50 (detection_history ?s' @ appended_entries L cs ?s')"
    by (rule Cons.IH)
  also have "\<dots> = py_last_n 50 ((detection_history s @ ?new) @ appended_entries L cs ?s')"
    by (subst step) (rule py_last_n_append)
  finally show ?case by simp
qed

text \<open>
  Claim C1. Started with at most 50 entries in the buffer (the module starts with
  none), any sequence of calls leaves at most 50, and the buffer is then the last 50
  of what it held followed by the entries the runs built, in order: every run that
  gets to the append puts one entry at the end, and the entries dropped are the
  oldest ones, from the front.
\<close>

theorem history_bounded_fifo:
  "length (detection_history s) \<le> 50 \<Longrightarrow>
     length (detection_history (run_calls L cs s)) \<le> 50 \<and>
     detection_history (run_calls L cs s) =
       drop (length (detection_history s @ appended_entries L cs s) - 50)
            (detection_history s @ appended_entries L cs s)"
proof -
  assume "length (detection_history s) \<le> 50"
  then have eq: "detection_history (run_calls L cs s) =
       py_last_n 50 (detection_history s @ appended_entries L cs s)"
    by (rule run_calls_history)
  then have "length (detection_history (run_calls L cs s)) \<le> 50"
    by (simp only: py_last_n_length min.cobounded1)
  with eq show ?thesis by (simp add: py_last_n_def)
qed

lemma shark_vis:
  "create_visualization demo_lib [0] 0 [\<lparr>boxes = Some [shark_box]\<rparr>] ''YOLOv8n'' (1 / 2)
     = ([0, 0, 3, 3], Inr (3, [shark_record]))"
  by (simp add: create_visualization_def alloc_def py_index_def draw_box_def demo_lib_def
        shark_box_def shark_record_def py_int_def get_class_name_def UNDERWATER_CLASSES_def
        get_color_def dict_get_def CLASS_COLORS_def color_rgb_of_def py_slice_def int16_def
        hex_digit_def in_place_def Let_def)

lemma shark_run_entry: "run_entry demo_lib demo_call full_app = Some shark_entry"
  by (simp add: run_entry_def demo_call_def full_app_def shark_detector_def demo_clock_def
        shark_vis shark_entry_def)

theorem history_bounded_fifo_witness:
  "length (detection_history full_app) \<le> 50 \<and>
   detection_history (run_calls demo_lib [demo_call] full_app)
     = replicate 49 old_entry @ [shark_entry]"
proof -
  have len: "length (detection_history full_app) \<le> 50"
    by (simp add: full_app_def)
  from history_bounded_fifo [OF len, where L = demo_lib and cs = "[demo_call]"]
  have "detection_history (run_calls demo_lib [demo_call] full_app) =
          drop (length (detection_history full_app @ [shark_entry]) - 50)
               (detection_history full_app @ [shark_entry])"
    by (simp add: shark_run_entry)
  then show ?thesis
    using len by (simp add: full_app_def)
qed

text \<open>
  Claim C2. When the chosen model is in the registry, the detector returns its
  results and the visualization returns its record list, \<open>detect_objects\<close> returns its
  3-tuple and the buffer is the old one (without its first entry when it already
  held 50 or more) followed by exactly one new entry, whose fields are the
  timestamp, the model name, the length of the record list, the latency and the
  record list.
\<close>

theorem detect_objects_appends_entry:
  assumes "map_of (models s) model_choice = Some mdl"
    and "mdl (heap s ! img) ct it = Inr results"
    and "create_visualization L (heap s) img results model_choice (t_end ck - t_start ck)
           = (h', Inr (annotated, detection_data))"
  shows "\<exists>summary.
     detect_objects L ck (Some img) model_choice ct it s =
       (s\<lparr>heap := h',
          detection_history :=
            (if 50 \<le> length (detection_history s) then tl (detection_history s)
             else detection_history s) @
            [\<lparr>timestamp = now_text ck, model = model_choice,
              detections = int (length detection_data),
              inference_time = t_end ck - t_start ck,
              objects = detection_data\<rparr>]\<rparr>,
        Inr (Return3 annotated summary
               (''Detection completed in '' @ fmt2f L (t_end ck - t_start ck) @ ''s'')))"
proof -
  obtain msg where
    "create_detection_summary L detection_data model_choice (t_end ck - t_start ck) = Inr msg"
    using create_detection_summary_returns by blast
  with assms show ?thesis
    by (simp add: detect_objects_def Let_def keep_last_50_snoc)
qed

theorem detect_objects_appends_entry_witness:
  "map_of (models full_app) ''YOLOv8n'' = Some shark_detector \<and>
   shark_detector (heap full_app ! 0) (1 / 4) (9 / 20) = Inr [\<lparr>boxes = Some [shark_box]\<rparr>] \<and>
   (\<exists>summary.
      detect_objects demo_lib demo_clock (Some 0) ''YOLOv8n'' (1 / 4) (9 / 20) full_app =
        (full_app\<lparr>heap := [0, 0, 3, 3],
                  detection_history := replicate 49 old_entry @ [shark_entry]\<rparr>,
         Inr (Return3 3 summary ''Detection completed in 0.50s'')))"
proof -
  have m: "map_of (models full_app) ''YOLOv8n'' = Some shark_detector"
    by (simp add: full_app_def)
  have r: "shark_detector (heap full_app ! 0) (1 / 4) (9 / 20) = Inr [\<lparr>boxes = Some [shark_box]\<rparr>]"
    by (simp add: shark_detector_def)
  have v: "create_visualization demo_lib (heap full_app) 0 [\<lparr>boxes = Some [shark_box]\<rparr>]
             ''YOLOv8n'' (t_end demo_clock - t_start demo_clock)
           = ([0, 0, 3, 3], Inr (3, [shark_record]))"
    using shark_vis by (simp add: full_app_def demo_clock_def)
  from detect_objects_appends_entry [OF m r v]
  show ?thesis
    using m r by (simp add: full_app_def demo_clock_def shark_entry_def demo_lib_def)
qed

text \<open>
  Claim C8. With no image, or with a model choice that is not in the registry,
  \<open>detect_objects\<close> returns its 4-tuple with no image and the message, and the whole
  state (the buffer with it) is as before; the result is the same when every
  detector of the registry is replaced by one that raises, so no detector ran.
\<close>

theorem detect_objects_early_return:
  "(image_arg = None \<longrightarrow>
      detect_objects L ck image_arg mc ct it s =
        (s, Inr (Return4 None ''Please upload an image'' None []))) \<and>
   (image_arg \<noteq> None \<and> map_of (models s) mc = None \<longrightarrow>
      detect_objects L ck image_arg mc ct it s =
        (s, Inr (Return4 None (''Model '' @ mc @ '' not available'') None []))) \<and>
   (image_arg = None \<or> map_of (models s) mc = None \<longrightarrow>
      snd (detect_objects L ck image_arg mc ct it
             (s\<lparr>models := map (\<lambda>nd. (fst nd, \<lambda>p c i. Inl (LibraryError ''called''))) (models s)\<rparr>))
        = snd (detect_objects L ck image_arg mc ct it s))"
  by (auto simp: detect_objects_def map_of_replace_values split: option.splits)

theorem detect_objects_early_return_witness:
  "detect_objects demo_lib demo_clock None ''YOLOv8n'' (1 / 4) (9 / 20) full_app =
     (full_app, Inr (Return4 None ''Please upload an image'' None [])) \<and>
   map_of (models full_app) ''YOLOv9'' = None \<and>
   detect_objects demo_lib demo_clock (Some 0) ''YOLOv9'' (1 / 4) (9 / 20) full_app =
     (full_app, Inr (Return4 None ''Model YOLOv9 not available'' None []))"
proof -
  have m: "map_of (models full_app) ''YOLOv9'' = None"
    by (simp add: full_app_def)
  from detect_objects_early_return
         [where image_arg = None and L = demo_lib and ck = demo_clock and mc = "''YOLOv8n''"
            and ct = "1 / 4" and it = "9 / 20" and s = full_app]
       detect_objects_early_return
         [where image_arg = "Some 0" and L = demo_lib and ck = demo_clock and mc = "''YOLOv9''"
            and ct = "1 / 4" and it = "9 / 20" and s = full_app]
       m
  show ?thesis by simp
qed

text \<open>
  Claim C9. \<open>create_detection_summary\<close> returns a text for every list of records;
  for the empty list it is the fixed message, and for a non-empty list the divisor
  of the average is the length of the list, which is not zero, so the division
  returns the quotient.
\<close>

theorem create_detection_summary_total:
  "create_detection_summary L [] mn t = Inr no_objects_message \<and>
   (\<exists>msg. create_detection_summary L dd mn t = Inr msg) \<and>
   (dd \<noteq> [] \<longrightarrow>
      int (length dd) \<noteq> 0 \<and>
      py_truediv (sum_list (map confidence dd)) (int (length dd))
        = Inr (sum_list (map confidence dd) / real (length dd)))"
  by (simp add: create_detection_summary_def py_truediv_def Let_def)

theorem create_detection_summary_total_witness:
  "[shark_record, class7_record] \<noteq> [] \<and>
   py_truediv (sum_list (map confidence [shark_record, class7_record])) 2 = Inr (9 / 10) \<and>
   (\<exists>msg. create_detection_summary demo_lib [shark_record, class7_record] ''YOLOv8n'' (1 / 2)
            = Inr msg)"
  using create_detection_summary_total
          [where L = demo_lib and mn = "''YOLOv8n''" and t = "1 / 2"
             and dd = "[shark_record, class7_record]"]
  by (simp add: shark_record_def class7_record_def)

text \<open>
  Claim C10. For an empty buffer \<open>get_detection_history\<close> returns the fixed message;
  otherwise it returns the header followed by one line for each of the last
  \<open>min 10 n\<close> entries of the \<open>n\<close> in the buffer, the most recent entry first:
  line \<open>k\<close>, counted from 0, shows the number \<open>k + 1\<close> and the timestamp, model,
  detection count and latency of entry \<open>n - 1 - k\<close>. The state is the same after
  the call.
\<close>

theorem get_detection_history_format:
  "(detection_history s = [] \<longrightarrow>
      snd (get_detection_history L s) = ''No detection history available.'') \<and>
   (detection_history s \<noteq> [] \<longrightarrow>
      snd (get_detection_history L s) =
        ''## '' @ [CHR 0xF0, CHR 0x9F, CHR 0x93, CHR 0x88] @ '' Detection History\<newline>\<newline>'' @
        concat (map (\<lambda>k. ''**'' @ str_int (int k + 1) @ ''.** '' @
                timestamp (detection_history s ! (length (detection_history s) - 1 - k)) @
                '' | Model: '' @
                model (detection_history s ! (length (detection_history s) - 1 - k)) @
                '' | Objects: '' @
                str_int (detections (detection_history s ! (length (detection_history s) - 1 - k))) @
                '' | Time: '' @
                fmt2f L (inference_time
                           (detection_history s ! (length (detection_history s) - 1 - k))) @
                ''s\<newline>'')
                    [0..<min 10 (length (detection_history s))])) \<and>
   fst (get_detection_history L s) = s"
proof -
  let ?h = "detection_history s"
  have "map (\<lambda>ir. history_line L (fst ir) (snd ir)) (enumerate 0 (rev (py_last_n 10 ?h)))
      = map (\<lambda>k. history_line L k (?h ! (length ?h - 1 - k))) [0..<min 10 (length ?h)]"
    by (simp add: enumerate_as_map py_last_n_length rev_py_last_n_nth o_def)
  then show ?thesis
    by (simp add: get_detection_history_def foldl_append_concat history_header_def
          history_line_def)
qed

theorem get_detection_history_format_witness:
  "detection_history twelve_app \<noteq> [] \<and>
   length (detection_history twelve_app) = 12 \<and>
   snd (get_detection_history demo_lib twelve_app) =
     ''## '' @ [CHR 0xF0, CHR 0x9F, CHR 0x93, CHR 0x88] @ '' Detection History\<newline>\<newline>'' @
     ''**1.** 2025-01-01 12:00:00 | Model: YOLOv8n | Objects: 1 | Time: 0.50s\<newline>'' @
     ''**2.** 2024-12-31 09:00:00 | Model: YOLOv8s | Objects: 0 | Time: 0.50s\<newline>'' @
     ''**3.** 2024-12-31 09:00:00 | Model: YOLOv8s | Objects: 0 | Time: 0.50s\<newline>'' @
     ''**4.** 2024-12-31 09:00:00 | Model: YOLOv8s | Objects: 0 | Time: 0.50s\<newline>'' @
     ''**5.** 2024-12-31 09:00:00 | Model: YOLOv8s | Objects: 0 | Time: 0.50s\<newline>'' @
     ''**6.** 2024-12-31 09:00:00 | Model: YOLOv8s | Objects: 0 | Time: 0.50s\<newline>'' @
     ''**7.** 2024-12-31 09:00:00 | Model: YOLOv8s | Objects: 0 | Time: 0.50s\<newline>'' @
     ''**8.** 2024-12-31 09:00:00 | Model: YOLOv8s | Objects: 0 | Time: 0.50s\<newline>'' @
     ''**9.** 2024-12-31 09:00:00 | Model: YOLOv8s | Objects: 0 | Time: 0.50s\<newline>'' @
     ''**10.** 2024-12-31 09:00:00 | Model: YOLOv8s | Objects: 0 | Time: 0.50s\<newline>''"
proof -
  have ne: "detection_history twelve_app \<noteq> []"
    and len: "length (detection_history twelve_app) = 12"
    by (simp_all add: twelve_app_def)
  have ev: "''## '' @ [CHR 0xF0, CHR 0x9F, CHR 0x93, CHR 0x88] @ '' Detection History\<newline>\<newline>'' @
        concat (map (\<lambda>k. ''**'' @ str_int (int k + 1) @ ''.** '' @
                timestamp (detection_history twelve_app ! (length (detection_history twelve_app) - 1 - k)) @
                '' | Model: '' @
                model (detection_history twelve_app ! (length (detection_history twelve_app) - 1 - k)) @
                '' | Objects: '' @
                str_int (detections (detection_history twelve_app ! (length (detection_history twelve_app) - 1 - k))) @
                '' | Time: '' @
                fmt2f demo_lib (inference_time
                           (detection_history twelve_app ! (length (detection_history twelve_app) - 1 - k))) @
                ''s\<newline>'')
                    [0..<min 10 (length (detection_history twelve_app))]) =
     ''## '' @ [CHR 0xF0, CHR 0x9F, CHR 0x93, CHR 0x88] @ '' Detection History\<newline>\<newline>'' @
     ''**1.** 2025-01-01 12:00:00 | Model: YOLOv8n | Objects: 1 | Time: 0.50s\<newline>'' @
     ''**2.** 2024-12-31 09:00:00 | Model: YOLOv8s | Objects: 0 | Time: 0.50s\<newline>'' @
     ''**3.** 2024-12-31 09:00:00 | Model: YOLOv8s | Objects: 0 | Time: 0.50s\<newline>'' @
     ''**4.** 2024-12-31 09:00:00 | Model: YOLOv8s | Objects: 0 | Time: 0.50s\<newline>'' @
     ''**5.** 2024-12-31 09:00:00 | Model: YOLOv8s | Objects: 0 | Time: 0.50s\<newline>'' @
     ''**6.** 2024-12-31 09:00:00 | Model: YOLOv8s | Objects: 0 | Time: 0.50s\<newline>'' @
     ''**7.** 2024-12-31 09:00:00 | Model: YOLOv8s | Objects: 0 | Time: 0.50s\<newline>'' @
     ''**8.** 2024-12-31 09:00:00 | Model: YOLOv8s | Objects: 0 | Time: 0.50s\<newline>'' @
     ''**9.** 2024-12-31 09:00:00 | Model: YOLOv8s | Objects: 0 | Time: 0.50s\<newline>'' @
     ''**10.** 2024-12-31 09:00:00 | Model: YOLOv8s | Objects: 0 | Time: 0.50s\<newline>''"
    by code_simp
  from get_detection_history_format [where s = twelve_app and L = demo_lib] ne
  have "snd (get_detection_history demo_lib twelve_app) =
        ''## '' @ [CHR 0xF0, CHR 0x9F, CHR 0x93, CHR 0x88] @ '' Detection History\<newline>\<newline>'' @
        concat (map (\<lambda>k. ''**'' @ str_int (int k + 1) @ ''.** '' @
                timestamp (detection_history twelve_app ! (length (detection_history twelve_app) - 1 - k)) @
                '' | Model: '' @
                model (detection_history twelve_app ! (length (detection_history twelve_app) - 1 - k)) @
                '' | Objects: '' @
                str_int (detections (detection_history twelve_app ! (length (detection_history twelve_app) - 1 - k))) @
                '' | Time: '' @
                fmt2f demo_lib (inference_time
                           (detection_history twelve_app ! (length (detection_history twelve_app) - 1 - k))) @
                ''s\<newline>'')
                    [0..<min 10 (length (detection_history twelve_app))])"
    by blast
  with ev ne len show ?thesis by (simp only: simp_thms)
qed

subsection \<open>create_visualization\<close>

lemma get_class_name_cases:
  assumes "get_class_name i = Inr cn"
  shows "cn \<in> set UNDERWATER_CLASSES \<or> (7 \<le> i \<and> cn = ''class_'' @ str_int i)"
proof (cases "i < 7")
  case True
  with assms have "py_index UNDERWATER_CLASSES i = Inr cn"
    by (simp add: get_class_name_def UNDERWATER_CLASSES_def)
  then show ?thesis by (simp add: py_index_mem)
next
  case False
  with assms show ?thesis
    by (simp add: get_class_name_def UNDERWATER_CLASSES_def)
qed

lemma draw_box_result:
  assumes "draw_box L w hgt ann b (h, dd) = (h', Inr dd')"
  shows "dd' = dd \<or> (\<exists>d. dd' = dd @ [d] \<and> drawn_from b d)"
  using assms
  by (auto simp: draw_box_def drawn_from_def Let_def
           split: option.splits sum.splits prod.splits)

lemma draw_boxes_result:
  assumes "draw_boxes L w hgt ann bs (h, dd) = (h', Inr dd')" and "d \<in> set dd'"
  shows "d \<in> set dd \<or> (\<exists>b \<in> set bs. drawn_from b d)"
  using assms
proof (induction bs arbitrary: h dd)
  case Nil
  then show ?case by simp
next
  case (Cons b bs)
  obtain h1 r1 where step: "draw_box L w hgt ann b (h, dd) = (h1, r1)"
    by (cases "draw_box L w hgt ann b (h, dd)") auto
  with Cons.prems(1) obtain dd1 where r1: "r1 = Inr dd1"
    and rest: "draw_boxes L w hgt ann bs (h1, dd1) = (h', Inr dd')"
    by (cases r1) auto
  from Cons.IH [OF rest Cons.prems(2)]
  have "d \<in> set dd1 \<or> (\<exists>b \<in> set bs. drawn_from b d)" .
  moreover from draw_box_result [OF step [unfolded r1]]
  have "dd1 = dd \<or> (\<exists>d'. dd1 = dd @ [d'] \<and> drawn_from b d')" .
  ultimately show ?case by auto
qed

lemma create_visualization_boxes:
  assumes "create_visualization L h img results mn t = (h', Inr (out, dd))" and "d \<in> set dd"
  shows "\<exists>r rs bs b. results = r # rs \<and> boxes r = Some bs \<and> b \<in> set bs \<and> drawn_from b d"
proof -
  obtain r rs where res: "results = r # rs"
    using assms(1)
    by (cases results) (auto simp: create_visualization_def alloc_def py_index_def split: prod.splits)
  then have idx: "py_index results 0 = Inr r"
    by (simp add: py_index_def)
  obtain bs where bs: "boxes r = Some bs"
    using assms by (cases "boxes r") (auto simp: create_visualization_def alloc_def idx split: prod.splits)
  obtain ih iw where shp: "np_shape L (h ! img) = (ih, iw)"
    by (cases "np_shape L (h ! img)") auto
  from assms(1) obtain h3 where
    "draw_boxes L iw ih (Suc (length h)) bs (h @ [h ! img, h ! img], []) = (h3, Inr dd)"
    by (auto simp: create_visualization_def alloc_def idx bs shp split: prod.splits sum.splits)
  from draw_boxes_result [OF this assms(2)] res bs show ?thesis by auto
qed

lemma class7_vis:
  "create_visualization demo_lib [0] 0 [\<lparr>boxes = Some [class7_box]\<rparr>] ''YOLOv8n'' (1 / 2)
     = ([0, 0, 3, 3], Inr (3, [class7_record]))"
  by (simp add: create_visualization_def alloc_def py_index_def draw_box_def demo_lib_def
        class7_box_def class7_record_def py_int_def get_class_name_def UNDERWATER_CLASSES_def
        get_color_def dict_get_def CLASS_COLORS_def color_rgb_of_def py_slice_def int16_def
        hex_digit_def in_place_def Let_def str_int_def str_nat.simps [of 7] digit_char_def)

lemma get_class_name_by_id:
  assumes "get_class_name i = Inr cn"
  shows "(0 \<le> i \<and> i < 7 \<longrightarrow> cn = UNDERWATER_CLASSES ! nat i) \<and>
         (i < 0 \<longrightarrow> - 7 \<le> i \<and> cn = UNDERWATER_CLASSES ! nat (7 + i)) \<and>
         (7 \<le> i \<longrightarrow> cn = ''class_'' @ str_int i)"
  using assms
  by (auto simp: get_class_name_def py_index_def UNDERWATER_CLASSES_def split: if_splits)

lemma penguin_vis:
  "create_visualization demo_lib [0] 0 [\<lparr>boxes = Some [penguin_box]\<rparr>] ''YOLOv8n'' (1 / 2)
     = ([0, 0, 3, 3], Inr (3, [penguin_record]))"
  by (simp add: create_visualization_def alloc_def py_index_def draw_box_def demo_lib_def
        penguin_box_def penguin_record_def py_int_def ceiling_def get_class_name_def
        UNDERWATER_CLASSES_def
        get_color_def dict_get_def CLASS_COLORS_def color_rgb_of_def py_slice_def int16_def
        hex_digit_def in_place_def Let_def)

text \<open>
  Claim C3, as the code has it. Every record that \<open>create_visualization\<close> returns was
  drawn from a box of the first result, and with \<open>i\<close> the class value of that box
  truncated to an integer: its class name is the label at index \<open>i\<close> when
  \<open>0 \<le> i < 7\<close>, the label at index \<open>7 + i\<close> when \<open>- 7 \<le> i < 0\<close>, and the text
  \<open>class_\<close> followed by \<open>i\<close> when \<open>i \<ge> 7\<close>; its confidence is the score of that
  box, unchanged (so within 0 and 1 when the detector's scores are); its bounding
  box is the four coordinates of the box truncated to integers; its colour is the
  table's colour of the class name, white for a name that is not in the table.
\<close>

theorem create_visualization_records:
  assumes "create_visualization L h img results mn t = (h', Inr (out, dd))" and "d \<in> set dd"
  shows "(\<exists>r rs bs b cl. results = r # rs \<and> boxes r = Some bs \<and> b \<in> set bs \<and>
            cls b = Some cl \<and>
            (0 \<le> py_int cl \<and> py_int cl < 7 \<longrightarrow>
               class_name d = UNDERWATER_CLASSES ! nat (py_int cl)) \<and>
            (py_int cl < 0 \<longrightarrow>
               - 7 \<le> py_int cl \<and> class_name d = UNDERWATER_CLASSES ! nat (7 + py_int cl)) \<and>
            (7 \<le> py_int cl \<longrightarrow> class_name d = ''class_'' @ str_int (py_int cl)) \<and>
            conf b = Some (confidence d) \<and>
            bbox d = (case xyxy b of (fx1, fy1, fx2, fy2) \<Rightarrow>
                        [py_int fx1, py_int fy1, py_int fx2, py_int fy2])) \<and>
         (class_name d \<in> set UNDERWATER_CLASSES \<or>
            (\<exists>i. 7 \<le> i \<and> class_name d = ''class_'' @ str_int i)) \<and>
         ((\<forall>bs. boxes (hd results) = Some bs \<longrightarrow>
              (\<forall>b \<in> set bs. \<forall>c. conf b = Some c \<longrightarrow> 0 \<le> c \<and> c \<le> 1)) \<longrightarrow>
            0 \<le> confidence d \<and> confidence d \<le> 1) \<and>
         length (bbox d) = 4 \<and>
         color d = dict_get CLASS_COLORS (class_name d) ''#FFFFFF''"
proof -
  from create_visualization_boxes [OF assms]
  obtain r rs bs b where res: "results = r # rs" "boxes r = Some bs" "b \<in> set bs"
    and df: "drawn_from b d" by blast
  from df obtain cl where cls: "cls b = Some cl"
    and cl: "get_class_name (py_int cl) = Inr (class_name d)"
    and cf: "conf b = Some (confidence d)"
    and bb: "bbox d = (case xyxy b of (fx1, fy1, fx2, fy2) \<Rightarrow>
                        [py_int fx1, py_int fy1, py_int fx2, py_int fy2])"
    and col: "color d = get_color (class_name d)"
    by (auto simp: drawn_from_def split: option.splits)
  note by_id = get_class_name_by_id [OF cl]
  from get_class_name_cases [OF cl]
  have name: "class_name d \<in> set UNDERWATER_CLASSES \<or>
            (\<exists>i. 7 \<le> i \<and> class_name d = ''class_'' @ str_int i)" by blast
  have len: "length (bbox d) = 4"
    using bb by (cases "xyxy b") auto
  have box: "\<exists>r rs bs b cl. results = r # rs \<and> boxes r = Some bs \<and> b \<in> set bs \<and>
            cls b = Some cl \<and>
            (0 \<le> py_int cl \<and> py_int cl < 7 \<longrightarrow>
               class_name d = UNDERWATER_CLASSES ! nat (py_int cl)) \<and>
            (py_int cl < 0 \<longrightarrow>
               - 7 \<le> py_int cl \<and> class_name d = UNDERWATER_CLASSES ! nat (7 + py_int cl)) \<and>
            (7 \<le> py_int cl \<longrightarrow> class_name d = ''class_'' @ str_int (py_int cl)) \<and>
            conf b = Some (confidence d) \<and>
            bbox d = (case xyxy b of (fx1, fy1, fx2, fy2) \<Rightarrow>
                        [py_int fx1, py_int fy1, py_int fx2, py_int fy2])"
    using res cls by_id cf bb by blast
  have rng: "(\<forall>bs. boxes (hd results) = Some bs \<longrightarrow>
              (\<forall>b \<in> set bs. \<forall>c. conf b = Some c \<longrightarrow> 0 \<le> c \<and> c \<le> 1)) \<longrightarrow>
            0 \<le> confidence d \<and> confidence d \<le> 1"
    using res cf by auto
  from name box rng len col show ?thesis
    by (simp only: get_color_def simp_thms)
qed

theorem create_visualization_records_witness:
  "create_visualization demo_lib [0] 0 [\<lparr>boxes = Some [penguin_box]\<rparr>] ''YOLOv8n'' (1 / 2)
     = ([0, 0, 3, 3], Inr (3, [penguin_record])) \<and>
   penguin_record \<in> set [penguin_record] \<and>
   cls penguin_box = Some (29 / 10) \<and> py_int (29 / 10) = 2 \<and>
   class_name penguin_record = UNDERWATER_CLASSES ! 2 \<and>
   class_name penguin_record = ''penguin'' \<and>
   confidence penguin_record = 4 / 5 \<and>
   bbox penguin_record = [0, 3, 50, 60] \<and>
   color penguin_record = ''#45B7D1''"
proof -
  have mem: "penguin_record \<in> set [penguin_record]" by simp
  have c: "cls penguin_box = Some (29 / 10)" and i: "py_int (29 / 10) = 2"
    by (simp_all add: penguin_box_def py_int_def)
  from create_visualization_records [OF penguin_vis mem]
  obtain r rs bs b cl where
    "[\<lparr>boxes = Some [penguin_box]\<rparr>] = r # rs" "boxes r = Some bs" "b \<in> set bs"
    "cls b = Some cl"
    and link: "0 \<le> py_int cl \<and> py_int cl < 7 \<longrightarrow>
                 class_name penguin_record = UNDERWATER_CLASSES ! nat (py_int cl)"
    and col: "color penguin_record = dict_get CLASS_COLORS (class_name penguin_record) ''#FFFFFF''"
    by blast
  then have "b = penguin_box" by auto
  with \<open>cls b = Some cl\<close> c have "cl = 29 / 10" by simp
  with link i col
  have "class_name penguin_record = UNDERWATER_CLASSES ! 2 \<and>
        color penguin_record = dict_get CLASS_COLORS (class_name penguin_record) ''#FFFFFF''"
    by simp
  then show ?thesis
    using penguin_vis mem c i
    by (simp add: UNDERWATER_CLASSES_def CLASS_COLORS_def dict_get_def penguin_record_def)
qed

theorem create_visualization_class_counterexample:
  "snd (create_visualization demo_lib [0] 0 [\<lparr>boxes = Some [class7_box]\<rparr>] ''YOLOv8n'' (1 / 2))
     = Inr (3, [class7_record]) \<and>
   class_name class7_record \<notin> set UNDERWATER_CLASSES"
  by (simp add: class7_vis class7_record_def UNDERWATER_CLASSES_def)

lemma in_place_frame: "n \<le> a \<Longrightarrow> take n (in_place f a h) = take n h"
  by (simp add: in_place_def)

lemma in_place_length: "length (in_place f a h) = length h"
  by (simp add: in_place_def)

lemma draw_box_frame:
  assumes "n \<le> ann"
  shows "take n (fst (draw_box L w hgt ann b (h, dd))) = take n h \<and>
         length (fst (draw_box L w hgt ann b (h, dd))) = length h"
  using assms
  by (auto simp: draw_box_def Let_def in_place_frame in_place_length
           split: option.splits sum.splits prod.splits)

lemma draw_boxes_frame:
  assumes "n \<le> ann"
  shows "take n (fst (draw_boxes L w hgt ann bs (h, dd))) = take n h \<and>
         length (fst (draw_boxes L w hgt ann bs (h, dd))) = length h"
proof (induction bs arbitrary: h dd)
  case Nil
  then show ?case by simp
next
  case (Cons b bs)
  obtain h1 r1 where step: "draw_box L w hgt ann b (h, dd) = (h1, r1)"
    by (cases "draw_box L w hgt ann b (h, dd)") auto
  from draw_box_frame [OF assms, of L w hgt b h dd] step
  have h1: "take n h1 = take n h" "length h1 = length h" by simp_all
  show ?case
  proof (cases r1)
    case (Inl e)
    with step h1 show ?thesis by simp
  next
    case (Inr dd1)
    with step h1 Cons.IH [of h1 dd1] show ?thesis by simp
  qed
qed

lemma color_rgb_of_get_color: "\<exists>rgb. color_rgb_of (get_color cn) = Inr rgb"
proof -
  have "get_color cn \<in> {''#FF6B6B'', ''#4ECDC4'', ''#45B7D1'', ''#96CEB4'', ''#FECA57'',
                          ''#FF9FF3'', ''#54A0FF'', ''#FFFFFF''}"
    by (simp add: get_color_def dict_get_def CLASS_COLORS_def)
  then show ?thesis
    by (auto simp: color_rgb_of_def py_slice_def int16_def hex_digit_def)
qed

lemma draw_box_paint:
  assumes "ann < length h" and "draw_box L w hgt ann b (h, dd) = (h', Inr dd')"
  shows "(h' = h \<and> dd' = dd) \<or>
         (\<exists>d. dd' = dd @ [d] \<and> h' = h[ann := paint_record L w hgt d (h ! ann)])"
  using assms
  by (auto simp: draw_box_def paint_record_def in_place_def Let_def
           split: option.splits sum.splits prod.splits)

lemma draw_boxes_paint:
  assumes "ann < length h" and "draw_boxes L w hgt ann bs (h, dd) = (h', Inr dd')"
  shows "\<exists>new. dd' = dd @ new \<and>
           h' = h[ann := foldl (\<lambda>p d. paint_record L w hgt d p) (h ! ann) new]"
  using assms
proof (induction bs arbitrary: h dd)
  case Nil
  then show ?case by simp
next
  case (Cons b bs)
  let ?paint = "\<lambda>p d. paint_record L w hgt d p"
  obtain h1 r1 where step: "draw_box L w hgt ann b (h, dd) = (h1, r1)"
    by (cases "draw_box L w hgt ann b (h, dd)") auto
  with Cons.prems(2) obtain dd1 where r1: "r1 = Inr dd1"
    and rest: "draw_boxes L w hgt ann bs (h1, dd1) = (h', Inr dd')"
    by (cases r1) auto
  from draw_box_paint [OF Cons.prems(1) step [unfolded r1]]
  have "\<exists>new1. dd1 = dd @ new1 \<and> h1 = h[ann := foldl ?paint (h ! ann) new1]"
  proof
    assume "h1 = h \<and> dd1 = dd"
    then have "dd1 = dd @ [] \<and> h1 = h[ann := foldl ?paint (h ! ann) []]" by simp
    then show ?thesis by blast
  next
    assume "\<exists>d. dd1 = dd @ [d] \<and> h1 = h[ann := paint_record L w hgt d (h ! ann)]"
    then obtain d where "dd1 = dd @ [d] \<and> h1 = h[ann := foldl ?paint (h ! ann) [d]]"
      by auto
    then show ?thesis by blast
  qed
  then obtain new1 where one: "dd1 = dd @ new1"
     and h1: "h1 = h[ann := foldl ?paint (h ! ann) new1]" by blast
  from h1 Cons.prems(1) have len: "ann < length h1"
    and at: "h1 ! ann = foldl ?paint (h ! ann) new1" by simp_all
  from Cons.IH [OF len rest] obtain new2 where two: "dd' = dd1 @ new2"
     and h': "h' = h1[ann := foldl ?paint (h1 ! ann) new2]" by blast
  have "dd' = dd @ (new1 @ new2)" using one two by simp
  moreover have "h' = h[ann := foldl ?paint (h ! ann) (new1 @ new2)]"
    unfolding h' at by (simp add: h1)
  ultimately show ?case by blast
qed

lemma create_visualization_paint:
  assumes "create_visualization L h img results mn t = (h', Inr (out, dd))"
  shows "h' ! (length h + 1) =
           foldl (\<lambda>p d. paint_record L (snd (np_shape L (h ! img))) (fst (np_shape L (h ! img))) d p)
                 (h ! img) dd"
proof -
  obtain ih iw where shp: "np_shape L (h ! img) = (ih, iw)"
    by (cases "np_shape L (h ! img)") auto
  let ?h2 = "h @ [h ! img, h ! img]"
  obtain r rs where res: "results = r # rs"
    using assms
    by (cases results) (auto simp: create_visualization_def alloc_def py_index_def split: prod.splits)
  then have idx: "py_index results 0 = Inr r" by (simp add: py_index_def)
  show ?thesis
  proof (cases "boxes r")
    case None
    with assms show ?thesis
      by (auto simp: create_visualization_def alloc_def idx shp nth_append)
  next
    case (Some bs)
    from assms Some obtain h3 where
      db: "draw_boxes L iw ih (Suc (length h)) bs (?h2, []) = (h3, Inr dd)"
      and h': "h' = h3 @ [h3 ! Suc (length h)]"
      by (auto simp: create_visualization_def alloc_def idx shp split: prod.splits sum.splits)
    have "Suc (length h) < length ?h2" by simp
    from draw_boxes_paint [OF this db]
    have h3: "h3 = ?h2[Suc (length h) :=
                 foldl (\<lambda>p d. paint_record L iw ih d p) (?h2 ! Suc (length h)) dd]"
      by simp
    have "h3 ! Suc (length h) = foldl (\<lambda>p d. paint_record L iw ih d p) (h ! img) dd"
      by (subst h3) (simp add: nth_append)
    moreover have "Suc (length h) < length h3"
      by (subst h3) simp
    ultimately show ?thesis
      by (simp add: h' shp nth_append)
  qed
qed

lemma trace_vis:
  "create_visualization trace_lib [[]] 0 [\<lparr>boxes = Some [shark_box]\<rparr>] ''YOLOv8n'' (1 / 2)
     = ([[], [],
         [Rectangle (10, 20) (110, 220) (254, 202, 87) 2,
          Rectangle (10, 0) (80, 20) (254, 202, 87) (- 1),
          Text ''shark 0.90'' (15, 15) (255, 255, 255) 1],
         [Rectangle (10, 20) (110, 220) (254, 202, 87) 2,
          Rectangle (10, 0) (80, 20) (254, 202, 87) (- 1),
          Text ''shark 0.90'' (15, 15) (255, 255, 255) 1]],
        Inr (3, [shark_record]))"
  by (simp add: create_visualization_def alloc_def py_index_def draw_box_def trace_lib_def
        shark_box_def shark_record_def py_int_def get_class_name_def UNDERWATER_CLASSES_def
        get_color_def dict_get_def CLASS_COLORS_def color_rgb_of_def py_slice_def int16_def
        hex_digit_def in_place_def Let_def)

text \<open>
  Claim C6. Whatever the call does (return or raise), every array that was on the
  heap before it, the caller's image with them, is as it was: the drawing goes to
  an array allocated by the call. When the call returns, that annotated copy holds
  the input's pixels with, for each returned record in order, the box outline, the
  label background and the label drawn on them, outline and background in the
  colour parsed from the colour code of the record's class name; the returned
  image is a new object holding the pixels of the annotated copy.
\<close>

theorem create_visualization_frame:
  "take (length h) (fst (create_visualization L h img results mn t)) = h \<and>
   (img < length h \<longrightarrow> fst (create_visualization L h img results mn t) ! img = h ! img) \<and>
   (\<forall>out dd. snd (create_visualization L h img results mn t) = Inr (out, dd) \<longrightarrow>
      out = length h + 2 \<and>
      length (fst (create_visualization L h img results mn t)) = length h + 3 \<and>
      fst (create_visualization L h img results mn t) ! (length h + 1)
        = foldl (\<lambda>p d. paint_record L (snd (np_shape L (h ! img)))
                          (fst (np_shape L (h ! img))) d p)
                (h ! img) dd \<and>
      fst (create_visualization L h img results mn t) ! out
        = fst (create_visualization L h img results mn t) ! (length h + 1) \<and>
      (\<forall>d \<in> set dd. color d = get_color (class_name d) \<and>
                      (\<exists>rgb. color_rgb_of (color d) = Inr rgb)))"
proof -
  let ?cv = "create_visualization L h img results mn t"
  obtain ih iw where shp: "np_shape L (h ! img) = (ih, iw)"
    by (cases "np_shape L (h ! img)") auto
  let ?h2 = "h @ [h ! img, h ! img]"
  have fr: "take (length h) (fst (draw_boxes L iw ih (Suc (length h)) bs (?h2, []))) = h"
       and ln: "length (fst (draw_boxes L iw ih (Suc (length h)) bs (?h2, []))) = length h + 2"
    for bs
    using draw_boxes_frame [of "length h" "Suc (length h)" L iw ih bs ?h2 "[]"] by simp_all
  have frame: "take (length h) (fst ?cv) = h"
  proof (cases results)
    case Nil
    then show ?thesis
      by (simp add: create_visualization_def alloc_def py_index_def shp)
  next
    case (Cons r rs)
    then have idx: "py_index results 0 = Inr r" by (simp add: py_index_def)
    show ?thesis
    proof (cases "boxes r")
      case None
      then show ?thesis
        by (simp add: create_visualization_def alloc_def idx shp)
    next
      case (Some bs)
      obtain h3 r3 where db: "draw_boxes L iw ih (Suc (length h)) bs (?h2, []) = (h3, r3)"
        by (cases "draw_boxes L iw ih (Suc (length h)) bs (?h2, [])") auto
      with fr [of bs] ln [of bs] have "take (length h) h3 = h" "length h3 = length h + 2"
        by simp_all
      with db Some show ?thesis
        by (cases r3) (simp_all add: create_visualization_def alloc_def idx shp)
    qed
  qed
  then have "img < length h \<longrightarrow> fst ?cv ! img = h ! img"
    by (metis nth_take)
  moreover have "\<forall>out dd. snd ?cv = Inr (out, dd) \<longrightarrow>
      out = length h + 2 \<and> length (fst ?cv) = length h + 3 \<and>
      fst ?cv ! (length h + 1)
        = foldl (\<lambda>p d. paint_record L (snd (np_shape L (h ! img)))
                          (fst (np_shape L (h ! img))) d p)
                (h ! img) dd \<and>
      fst ?cv ! out = fst ?cv ! (length h + 1) \<and>
      (\<forall>d \<in> set dd. color d = get_color (class_name d) \<and>
                      (\<exists>rgb. color_rgb_of (color d) = Inr rgb))"
  proof (intro allI impI)
    fix out dd assume ok: "snd ?cv = Inr (out, dd)"
    then obtain h' where cv: "?cv = (h', Inr (out, dd))" by (cases ?cv) auto
    have cols: "\<forall>d \<in> set dd. color d = get_color (class_name d) \<and>
                      (\<exists>rgb. color_rgb_of (color d) = Inr rgb)"
    proof
      fix d assume "d \<in> set dd"
      from create_visualization_boxes [OF cv this]
      have "color d = get_color (class_name d)"
        by (auto simp: drawn_from_def split: option.splits)
      then show "color d = get_color (class_name d) \<and> (\<exists>rgb. color_rgb_of (color d) = Inr rgb)"
        using color_rgb_of_get_color by simp
    qed
    obtain r rs where res: "results = r # rs"
      using cv
      by (cases results) (auto simp: create_visualization_def alloc_def py_index_def split: prod.splits)
    then have idx: "py_index results 0 = Inr r" by (simp add: py_index_def)
    have shape: "out = length h + 2 \<and> length h' = length h + 3 \<and> h' ! out = h' ! (length h + 1)"
    proof (cases "boxes r")
      case None
      with cv show ?thesis
        by (auto simp: create_visualization_def alloc_def idx shp nth_append)
    next
      case (Some bs)
      obtain h3 r3 where db: "draw_boxes L iw ih (Suc (length h)) bs (?h2, []) = (h3, r3)"
        by (cases "draw_boxes L iw ih (Suc (length h)) bs (?h2, [])") auto
      with ln [of bs] have "length h3 = length h + 2" by simp
      with db Some cv show ?thesis
        by (cases r3) (auto simp: create_visualization_def alloc_def idx shp nth_append)
    qed
    note paint = create_visualization_paint [OF cv]
    with shape cols cv show "out = length h + 2 \<and> length (fst ?cv) = length h + 3 \<and>
      fst ?cv ! (length h + 1)
        = foldl (\<lambda>p d. paint_record L (snd (np_shape L (h ! img)))
                          (fst (np_shape L (h ! img))) d p)
                (h ! img) dd \<and>
      fst ?cv ! out = fst ?cv ! (length h + 1) \<and>
      (\<forall>d \<in> set dd. color d = get_color (class_name d) \<and>
                      (\<exists>rgb. color_rgb_of (color d) = Inr rgb))" by auto
  qed
  ultimately show ?thesis using frame by blast
qed


theorem create_visualization_frame_witness:
  "(0::nat) < length [[] :: draw_cmd list] \<and>
   fst (create_visualization trace_lib [[]] 0 [\<lparr>boxes = Some [shark_box]\<rparr>] ''YOLOv8n'' (1 / 2)) ! 0
     = [] \<and>
   snd (create_visualization trace_lib [[]] 0 [\<lparr>boxes = Some [shark_box]\<rparr>] ''YOLOv8n'' (1 / 2))
     = Inr (3, [shark_record]) \<and>
   fst (create_visualization trace_lib [[]] 0 [\<lparr>boxes = Some [shark_box]\<rparr>] ''YOLOv8n'' (1 / 2)) ! 3
     = [Rectangle (10, 20) (110, 220) (254, 202, 87) 2,
        Rectangle (10, 0) (80, 20) (254, 202, 87) (- 1),
        Text ''shark 0.90'' (15, 15) (255, 255, 255) 1] \<and>
   color shark_record = get_color (class_name shark_record) \<and>
   color_rgb_of (color shark_record) = Inr (254, 202, 87)"
proof -
  let ?cv = "create_visualization trace_lib [[]] 0 [\<lparr>boxes = Some [shark_box]\<rparr>] ''YOLOv8n'' (1 / 2)"
  have rgb: "color_rgb_of (color shark_record) = Inr (254, 202, 87)"
    by (simp add: shark_record_def color_rgb_of_def py_slice_def int16_def hex_digit_def)
  have ok: "snd ?cv = Inr (3, [shark_record])"
    by (simp add: trace_vis)
  have painted: "foldl (\<lambda>p d. paint_record trace_lib (snd (np_shape trace_lib ([[]] ! 0)))
                          (fst (np_shape trace_lib ([[]] ! 0))) d p) ([[]] ! 0) [shark_record]
        = [Rectangle (10, 20) (110, 220) (254, 202, 87) 2,
           Rectangle (10, 0) (80, 20) (254, 202, 87) (- 1),
           Text ''shark 0.90'' (15, 15) (255, 255, 255) 1]"
    by (simp add: paint_record_def trace_lib_def shark_record_def get_color_def dict_get_def
          CLASS_COLORS_def color_rgb_of_def py_slice_def int16_def hex_digit_def py_int_def
          Let_def)
  note t = create_visualization_frame
         [where L = trace_lib and h = "[[]]" and img = 0
            and results = "[\<lparr>boxes = Some [shark_box]\<rparr>]" and mn = "''YOLOv8n''" and t = "1 / 2"]
  from t have "fst ?cv ! 0 = [[]] ! 0" by simp
  moreover from t ok have "fst ?cv ! 3 = fst ?cv ! (length [[] :: draw_cmd list] + 1)
      \<and> fst ?cv ! (length [[] :: draw_cmd list] + 1)
        = foldl (\<lambda>p d. paint_record trace_lib (snd (np_shape trace_lib ([[]] ! 0)))
                          (fst (np_shape trace_lib ([[]] ! 0))) d p) ([[]] ! 0) [shark_record]
      \<and> color shark_record = get_color (class_name shark_record)"
    by simp
  ultimately show ?thesis
    using ok rgb painted by simp
qed

subsection \<open>The model registry\<close>

lemma load_custom_models_MODEL_PATHS:
  "load_custom_models H MODEL_PATHS ([], [], []) = (ms, av, out) \<Longrightarrow>
   (\<forall>(n, p) \<in> set MODEL_PATHS.
      (\<not> path_exists H p \<longrightarrow>
         not_found_message n p \<in> set out \<and> map_of ms n = None \<and> n \<notin> set av) \<and>
      (\<forall>e. path_exists H p \<and> YOLO H p = Inl e \<longrightarrow>
         failed_message n e \<in> set out \<and> map_of ms n = None \<and> n \<notin> set av) \<and>
      (\<forall>m. path_exists H p \<and> YOLO H p = Inr m \<longrightarrow>
         loaded_message n p \<in> set out \<and> map_of ms n = Some m \<and> n \<in> set av)) \<and>
   map fst ms = av \<and> av = custom_loaded H \<and> default_message \<notin> set out"
  apply (simp add: MODEL_PATHS_def custom_loaded_def)
  apply (cases "path_exists H ''../yolov8n/runs/detect_train/weights/best.pt''";
         cases "path_exists H ''../yolov8s/runs/detect_train/weights/best.pt''";
         cases "YOLO H ''../yolov8n/runs/detect_train/weights/best.pt''";
         cases "YOLO H ''../yolov8s/runs/detect_train/weights/best.pt''")
  apply (auto simp: default_message_def not_found_message_def failed_message_def loaded_message_def)
  done

text \<open>
  Claim C4. When at least one custom weight file exists and loads, the start of the
  module completes without touching the generic weights. When none does, it
  completes exactly when both generic weights load, and the two slots then hold the
  detectors of \<open>yolov8n.pt\<close> and \<open>yolov8s.pt\<close>. Whenever it completes: every custom
  weight file that exists and loads is in the slot of its name, the generic weights
  were loaded if and only if no custom model was, the registry is not empty, its
  slots are the available models, and the history buffer starts empty.
\<close>

theorem module_init_registry:
  "(custom_loaded H \<noteq> [] \<longrightarrow>
      (\<exists>s. module_init H h0 = Inr s \<and> available_models s = custom_loaded H \<and>
           default_message \<notin> set (stdout s))) \<and>
   (custom_loaded H = [] \<longrightarrow>
      (\<forall>dn ds. YOLO H ''yolov8n.pt'' = Inr dn \<and> YOLO H ''yolov8s.pt'' = Inr ds \<longrightarrow>
         (\<exists>s. module_init H h0 = Inr s \<and>
              models s = [(''YOLOv8n'', dn), (''YOLOv8s'', ds)] \<and>
              available_models s = [''YOLOv8n'', ''YOLOv8s''] \<and>
              default_message \<in> set (stdout s))) \<and>
      (isl (YOLO H ''yolov8n.pt'') \<or> isl (YOLO H ''yolov8s.pt'') \<longrightarrow>
         isl (module_init H h0))) \<and>
   (\<forall>s. module_init H h0 = Inr s \<longrightarrow>
      (\<forall>(n, p) \<in> set MODEL_PATHS. \<forall>m.
          path_exists H p \<and> YOLO H p = Inr m \<longrightarrow> map_of (models s) n = Some m) \<and>
      ((custom_loaded H = []) = (default_message \<in> set (stdout s))) \<and>
      (custom_loaded H = [] \<longrightarrow>
         (\<exists>dn ds. YOLO H ''yolov8n.pt'' = Inr dn \<and> YOLO H ''yolov8s.pt'' = Inr ds \<and>
                  models s = [(''YOLOv8n'', dn), (''YOLOv8s'', ds)] \<and>
                  available_models s = [''YOLOv8n'', ''YOLOv8s''])) \<and>
      (custom_loaded H \<noteq> [] \<longrightarrow> available_models s = custom_loaded H) \<and>
      models s \<noteq> [] \<and> map fst (models s) = available_models s \<and>
      detection_history s = [])"
proof -
  obtain ms av out where ld: "load_custom_models H MODEL_PATHS ([], [], []) = (ms, av, out)"
    by (cases "load_custom_models H MODEL_PATHS ([], [], [])") auto
  note facts = load_custom_models_MODEL_PATHS [OF ld]
  from facts have av: "av = custom_loaded H" and nodef: "default_message \<notin> set out"
    and fst: "map fst ms = av" by blast+
  have custom: "custom_loaded H \<noteq> [] \<longrightarrow>
      (\<exists>s. module_init H h0 = Inr s \<and> available_models s = custom_loaded H \<and>
           default_message \<notin> set (stdout s))"
    using ld av nodef by (simp add: module_init_def)
  have generic: "custom_loaded H = [] \<longrightarrow>
      (\<forall>dn ds. YOLO H ''yolov8n.pt'' = Inr dn \<and> YOLO H ''yolov8s.pt'' = Inr ds \<longrightarrow>
         (\<exists>s. module_init H h0 = Inr s \<and>
              models s = [(''YOLOv8n'', dn), (''YOLOv8s'', ds)] \<and>
              available_models s = [''YOLOv8n'', ''YOLOv8s''] \<and>
              default_message \<in> set (stdout s))) \<and>
      (isl (YOLO H ''yolov8n.pt'') \<or> isl (YOLO H ''yolov8s.pt'') \<longrightarrow>
         isl (module_init H h0))"
  proof
    assume none: "custom_loaded H = []"
    with av fst have "av = []" "ms = []" by auto
    with ld show "(\<forall>dn ds. YOLO H ''yolov8n.pt'' = Inr dn \<and> YOLO H ''yolov8s.pt'' = Inr ds \<longrightarrow>
         (\<exists>s. module_init H h0 = Inr s \<and>
              models s = [(''YOLOv8n'', dn), (''YOLOv8s'', ds)] \<and>
              available_models s = [''YOLOv8n'', ''YOLOv8s''] \<and>
              default_message \<in> set (stdout s))) \<and>
      (isl (YOLO H ''yolov8n.pt'') \<or> isl (YOLO H ''yolov8s.pt'') \<longrightarrow>
         isl (module_init H h0))"
      by (auto simp: module_init_def split: sum.splits)
  qed
  have completed: "(\<forall>(n, p) \<in> set MODEL_PATHS. \<forall>m.
          path_exists H p \<and> YOLO H p = Inr m \<longrightarrow> map_of (models s) n = Some m) \<and>
      ((custom_loaded H = []) = (default_message \<in> set (stdout s))) \<and>
      (custom_loaded H = [] \<longrightarrow>
         (\<exists>dn ds. YOLO H ''yolov8n.pt'' = Inr dn \<and> YOLO H ''yolov8s.pt'' = Inr ds \<and>
                  models s = [(''YOLOv8n'', dn), (''YOLOv8s'', ds)] \<and>
                  available_models s = [''YOLOv8n'', ''YOLOv8s''])) \<and>
      (custom_loaded H \<noteq> [] \<longrightarrow> available_models s = custom_loaded H) \<and>
      models s \<noteq> [] \<and> map fst (models s) = available_models s \<and>
      detection_history s = []"
    if run: "module_init H h0 = Inr s" for s
  proof (cases "av = []")
    case True
    with facts have ms: "ms = []" and cl: "custom_loaded H = []" by auto
    from run ld True ms obtain dn ds where
      "YOLO H ''yolov8n.pt'' = Inr dn" "YOLO H ''yolov8s.pt'' = Inr ds"
      "s = \<lparr>models = [(''YOLOv8n'', dn), (''YOLOv8s'', ds)],
            available_models = [''YOLOv8n'', ''YOLOv8s''],
            detection_history = [], heap = h0, stdout = out @ [default_message]\<rparr>"
      by (auto simp: module_init_def split: sum.splits)
    with facts cl True show ?thesis by auto
  next
    case False
    with run ld have
      "s = \<lparr>models = ms, available_models = av, detection_history = [], heap = h0,
            stdout = out\<rparr>"
      by (auto simp: module_init_def)
    with facts False show ?thesis by auto
  qed
  from custom generic completed show ?thesis by blast
qed

lemma bare_host_init:
  "module_init bare_host [0] =
     Inr \<lparr>models = [(''YOLOv8n'', shark_detector), (''YOLOv8s'', shark_detector)],
          available_models = [''YOLOv8n'', ''YOLOv8s''],
          detection_history = [], heap = [0],
          stdout = [not_found_message ''YOLOv8n'' ''../yolov8n/runs/detect_train/weights/best.pt'',
                    not_found_message ''YOLOv8s'' ''../yolov8s/runs/detect_train/weights/best.pt'',
                    default_message]\<rparr>"
  by (simp add: module_init_def MODEL_PATHS_def bare_host_def)

lemma custom_host_init:
  "module_init custom_host [0] =
     Inr \<lparr>models = [(''YOLOv8n'', shark_detector), (''YOLOv8s'', class7_detector)],
          available_models = [''YOLOv8n'', ''YOLOv8s''],
          detection_history = [], heap = [0],
          stdout = [loaded_message ''YOLOv8n'' ''../yolov8n/runs/detect_train/weights/best.pt'',
                    loaded_message ''YOLOv8s'' ''../yolov8s/runs/detect_train/weights/best.pt'']\<rparr>"
  by (simp add: module_init_def MODEL_PATHS_def custom_host_def)

theorem module_init_registry_witness:
  "custom_loaded bare_host = [] \<and>
   (\<exists>s. module_init bare_host [0] = Inr s \<and>
        models s = [(''YOLOv8n'', shark_detector), (''YOLOv8s'', shark_detector)] \<and>
        default_message \<in> set (stdout s)) \<and>
   custom_loaded custom_host = [''YOLOv8n'', ''YOLOv8s''] \<and>
   YOLO custom_host ''yolov8n.pt'' = Inl ''no network'' \<and>
   (\<exists>s. module_init custom_host [0] = Inr s \<and>
        map_of (models s) ''YOLOv8n'' = Some shark_detector \<and>
        map_of (models s) ''YOLOv8s'' = Some class7_detector \<and>
        available_models s = [''YOLOv8n'', ''YOLOv8s''] \<and>
        default_message \<notin> set (stdout s))"
proof -
  have cb: "custom_loaded bare_host = []"
    and cc: "custom_loaded custom_host = [''YOLOv8n'', ''YOLOv8s'']"
    and gen: "YOLO custom_host ''yolov8n.pt'' = Inl ''no network''"
    and gb: "YOLO bare_host ''yolov8n.pt'' = Inr shark_detector"
            "YOLO bare_host ''yolov8s.pt'' = Inr shark_detector"
    by (simp_all add: custom_loaded_def MODEL_PATHS_def bare_host_def custom_host_def)
  have pn: "(''YOLOv8n'', ''../yolov8n/runs/detect_train/weights/best.pt'') \<in> set MODEL_PATHS"
    and ps: "(''YOLOv8s'', ''../yolov8s/runs/detect_train/weights/best.pt'') \<in> set MODEL_PATHS"
    by (simp_all add: MODEL_PATHS_def)
  have ln: "path_exists custom_host ''../yolov8n/runs/detect_train/weights/best.pt'' \<and>
            YOLO custom_host ''../yolov8n/runs/detect_train/weights/best.pt'' = Inr shark_detector"
    and ls: "path_exists custom_host ''../yolov8s/runs/detect_train/weights/best.pt'' \<and>
            YOLO custom_host ''../yolov8s/runs/detect_train/weights/best.pt'' = Inr class7_detector"
    by (simp_all add: custom_host_def)
  note b = module_init_registry [where H = bare_host and ?h0.0 = "[0]"]
  note c = module_init_registry [where H = custom_host and ?h0.0 = "[0]"]
  from b cb gb have fallback: "\<exists>s. module_init bare_host [0] = Inr s \<and>
        models s = [(''YOLOv8n'', shark_detector), (''YOLOv8s'', shark_detector)] \<and>
        default_message \<in> set (stdout s)"
    by blast
  from c cc obtain s where s: "module_init custom_host [0] = Inr s"
      "available_models s = custom_loaded custom_host" "default_message \<notin> set (stdout s)"
    by auto
  from c s(1) have slots: "\<forall>(n, p) \<in> set MODEL_PATHS. \<forall>m.
          path_exists custom_host p \<and> YOLO custom_host p = Inr m \<longrightarrow>
          map_of (models s) n = Some m"
    by blast
  from bspec [OF slots pn] ln have "map_of (models s) ''YOLOv8n'' = Some shark_detector"
    by simp
  moreover from bspec [OF slots ps] ls have "map_of (models s) ''YOLOv8s'' = Some class7_detector"
    by simp
  ultimately have "\<exists>s. module_init custom_host [0] = Inr s \<and>
        map_of (models s) ''YOLOv8n'' = Some shark_detector \<and>
        map_of (models s) ''YOLOv8s'' = Some class7_detector \<and>
        available_models s = [''YOLOv8n'', ''YOLOv8s''] \<and>
        default_message \<notin> set (stdout s)"
    using s cc by auto
  with fallback cb cc gen show ?thesis by blast
qed

text \<open>
  Claim C5. The loading loop always runs to its end: a weight file that is missing
  or whose load raises leaves its message on the output and no slot, and a file
  that loads has its slot. When at least one custom model loads, the start of the
  module completes with that model in the registry and among the available models,
  whatever happened to the other.
\<close>

theorem load_failure_skipped:
  "(\<exists>ms av out. load_custom_models H MODEL_PATHS ([], [], []) = (ms, av, out) \<and>
      (\<forall>(n, p) \<in> set MODEL_PATHS.
         (\<not> path_exists H p \<longrightarrow>
            not_found_message n p \<in> set out \<and> map_of ms n = None \<and> n \<notin> set av) \<and>
         (\<forall>e. path_exists H p \<and> YOLO H p = Inl e \<longrightarrow>
            failed_message n e \<in> set out \<and> map_of ms n = None \<and> n \<notin> set av) \<and>
         (\<forall>m. path_exists H p \<and> YOLO H p = Inr m \<longrightarrow>
            map_of ms n = Some m \<and> n \<in> set av))) \<and>
   (\<forall>(n, p) \<in> set MODEL_PATHS. \<forall>m.
      path_exists H p \<and> YOLO H p = Inr m \<longrightarrow>
        (\<exists>s. module_init H h0 = Inr s \<and>
              map_of (models s) n = Some m \<and> n \<in> set (available_models s) \<and>
              (\<forall>(n', p') \<in> set MODEL_PATHS.
                 (\<not> path_exists H p' \<longrightarrow>
                    not_found_message n' p' \<in> set (stdout s) \<and>
                    map_of (models s) n' = None \<and> n' \<notin> set (available_models s)) \<and>
                 (\<forall>e. path_exists H p' \<and> YOLO H p' = Inl e \<longrightarrow>
                    failed_message n' e \<in> set (stdout s) \<and>
                    map_of (models s) n' = None \<and> n' \<notin> set (available_models s)))))"
proof -
  obtain ms av out where ld: "load_custom_models H MODEL_PATHS ([], [], []) = (ms, av, out)"
    by (cases "load_custom_models H MODEL_PATHS ([], [], [])") auto
  note facts = load_custom_models_MODEL_PATHS [OF ld]
  have loop: "\<exists>ms av out. load_custom_models H MODEL_PATHS ([], [], []) = (ms, av, out) \<and>
      (\<forall>(n, p) \<in> set MODEL_PATHS.
         (\<not> path_exists H p \<longrightarrow>
            not_found_message n p \<in> set out \<and> map_of ms n = None \<and> n \<notin> set av) \<and>
         (\<forall>e. path_exists H p \<and> YOLO H p = Inl e \<longrightarrow>
            failed_message n e \<in> set out \<and> map_of ms n = None \<and> n \<notin> set av) \<and>
         (\<forall>m. path_exists H p \<and> YOLO H p = Inr m \<longrightarrow>
            map_of ms n = Some m \<and> n \<in> set av))"
    using ld facts by (intro exI [of _ ms] exI [of _ av] exI [of _ out]) fastforce
  have start: "\<exists>s. module_init H h0 = Inr s \<and>
              map_of (models s) n = Some m \<and> n \<in> set (available_models s) \<and>
              (\<forall>(n', p') \<in> set MODEL_PATHS.
                 (\<not> path_exists H p' \<longrightarrow>
                    not_found_message n' p' \<in> set (stdout s) \<and>
                    map_of (models s) n' = None \<and> n' \<notin> set (available_models s)) \<and>
                 (\<forall>e. path_exists H p' \<and> YOLO H p' = Inl e \<longrightarrow>
                    failed_message n' e \<in> set (stdout s) \<and>
                    map_of (models s) n' = None \<and> n' \<notin> set (available_models s)))"
    if "(n, p) \<in> set MODEL_PATHS" "path_exists H p" "YOLO H p = Inr m" for n p m
  proof -
    from facts that have "n \<in> set av" by fastforce
    then have "av \<noteq> []" by auto
    with ld have "module_init H h0 =
       Inr \<lparr>models = ms, available_models = av, detection_history = [], heap = h0,
            stdout = out\<rparr>"
      by (simp add: module_init_def)
    with facts that show ?thesis by fastforce
  qed
  from loop start show ?thesis by blast
qed

theorem load_failure_skipped_witness:
  "(''YOLOv8n'', ''../yolov8n/runs/detect_train/weights/best.pt'') \<in> set MODEL_PATHS \<and>
   path_exists half_host ''../yolov8n/runs/detect_train/weights/best.pt'' \<and>
   YOLO half_host ''../yolov8n/runs/detect_train/weights/best.pt'' = Inr shark_detector \<and>
   YOLO half_host ''../yolov8s/runs/detect_train/weights/best.pt'' = Inl ''corrupt file'' \<and>
   (\<exists>s. module_init half_host [0] = Inr s \<and>
        map_of (models s) ''YOLOv8n'' = Some shark_detector \<and>
        ''YOLOv8n'' \<in> set (available_models s) \<and>
        failed_message ''YOLOv8s'' ''corrupt file'' \<in> set (stdout s) \<and>
        map_of (models s) ''YOLOv8s'' = None \<and>
        ''YOLOv8s'' \<notin> set (available_models s))"
proof -
  have a: "(''YOLOv8n'', ''../yolov8n/runs/detect_train/weights/best.pt'') \<in> set MODEL_PATHS"
    and b: "(''YOLOv8s'', ''../yolov8s/runs/detect_train/weights/best.pt'') \<in> set MODEL_PATHS"
    by (simp_all add: MODEL_PATHS_def)
  have c: "path_exists half_host ''../yolov8n/runs/detect_train/weights/best.pt''"
    and d: "YOLO half_host ''../yolov8n/runs/detect_train/weights/best.pt'' = Inr shark_detector"
    and e: "path_exists half_host ''../yolov8s/runs/detect_train/weights/best.pt''"
    and f: "YOLO half_host ''../yolov8s/runs/detect_train/weights/best.pt'' = Inl ''corrupt file''"
    by (simp_all add: half_host_def)
  from load_failure_skipped [where H = half_host and ?h0.0 = "[0]"]
  have every: "\<forall>(n, p) \<in> set MODEL_PATHS. \<forall>m.
      path_exists half_host p \<and> YOLO half_host p = Inr m \<longrightarrow>
        (\<exists>s. module_init half_host [0] = Inr s \<and>
              map_of (models s) n = Some m \<and> n \<in> set (available_models s) \<and>
              (\<forall>(n', p') \<in> set MODEL_PATHS.
                 (\<not> path_exists half_host p' \<longrightarrow>
                    not_found_message n' p' \<in> set (stdout s) \<and>
                    map_of (models s) n' = None \<and> n' \<notin> set (available_models s)) \<and>
                 (\<forall>e. path_exists half_host p' \<and> YOLO half_host p' = Inl e \<longrightarrow>
                    failed_message n' e \<in> set (stdout s) \<and>
                    map_of (models s) n' = None \<and> n' \<notin> set (available_models s))))"
    by (rule conjunct2)
  from bspec [OF every a] c d obtain s where s: "module_init half_host [0] = Inr s"
     "map_of (models s) ''YOLOv8n'' = Some shark_detector"
     "''YOLOv8n'' \<in> set (available_models s)"
    and others: "\<forall>(n', p') \<in> set MODEL_PATHS.
                 (\<not> path_exists half_host p' \<longrightarrow>
                    not_found_message n' p' \<in> set (stdout s) \<and>
                    map_of (models s) n' = None \<and> n' \<notin> set (available_models s)) \<and>
                 (\<forall>e. path_exists half_host p' \<and> YOLO half_host p' = Inl e \<longrightarrow>
                    failed_message n' e \<in> set (stdout s) \<and>
                    map_of (models s) n' = None \<and> n' \<notin> set (available_models s))"
    by auto
  from bspec [OF others b] e f
  have "failed_message ''YOLOv8s'' ''corrupt file'' \<in> set (stdout s) \<and>
        map_of (models s) ''YOLOv8s'' = None \<and> ''YOLOv8s'' \<notin> set (available_models s)"
    by simp
  with s a c d f show ?thesis by blast
qed

subsection \<open>The training scripts\<close>

lemma os_path_dirname_file:
  assumes "CHR ''/'' \<notin> set name" and "d \<noteq> []" and "last d \<noteq> CHR ''/''"
  shows "os_path_dirname (d @ CHR ''/'' # name) = d"
proof -
  have revd: "rev d = last d # rev (butlast d)"
    using assms(2) by (metis append_butlast_last_id rev.simps(2) rev_rev_ident rev_singleton_conv rev_append append_Cons append_Nil)
  have head: "rev (dropWhile (\<lambda>c. c \<noteq> CHR ''/'') (rev (d @ CHR ''/'' # name))) = d @ ''/''"
    using assms(1) by (simp add: dropWhile_append)
  have ns: "d @ ''/'' \<noteq> replicate (length (d @ ''/'')) (CHR ''/'')"
  proof
    assume "d @ ''/'' = replicate (length (d @ ''/'')) (CHR ''/'')"
    then have "set (d @ ''/'') \<subseteq> {CHR ''/''}"
      by (metis set_replicate_conv_if subset_insertI empty_subsetI order_refl)
    with assms(2,3) show False
      using last_in_set by fastforce
  qed
  have strip: "rev (dropWhile (\<lambda>c. c = CHR ''/'') (rev (d @ ''/''))) = d"
    using assms(2,3) by (simp add: revd)
  show ?thesis
    unfolding os_path_dirname_def Let_def head using ns strip by simp
qed

lemma os_path_join_file:
  "d \<noteq> [] \<Longrightarrow> last d \<noteq> CHR ''/'' \<Longrightarrow> os_path_join d ''test_data.yaml'' = d @ ''/test_data.yaml''"
  by (simp add: os_path_join_def)

lemma evaluate_test_set_file:
  "files (fst (evaluate_test_set H w)) (test_yaml_path H) = Some (test_yaml H)"
  by (simp add: evaluate_test_set_def Let_def print_map50_def say_def split: sum.splits)

text \<open>
  Claim C7. In each training script, once the model is constructed and training,
  validation and prediction return, \<open>main\<close> leaves the label map in the file
  \<open>test_data.yaml\<close> of the script's directory (whether the last validation returns or
  raises); the map gives \<open>nc\<close> the value 7 and \<open>names\<close> the seven labels in order.
\<close>

theorem training_scripts_write_label_map:
  assumes "YOLO_new H ''yolov8s.pt'' = None"
    and "model_val H val_args = Inr v"
    and "model_predict H (predict_args H) = None"
  shows "(model_train H train_args_yolov8 = None \<longrightarrow>
            files (fst (main_train_and_test_yolov8 H w)) (test_yaml_path H) = Some (test_yaml H)) \<and>
         (model_train H train_args_yolov8s = None \<longrightarrow>
            files (fst (main_train_test_yolov8s H w)) (test_yaml_path H) = Some (test_yaml H)) \<and>
         (\<forall>d name. script_file H = d @ ''/'' @ name \<and> CHR ''/'' \<notin> set name \<and>
                   d \<noteq> [] \<and> last d \<noteq> CHR ''/'' \<longrightarrow>
            test_yaml_path H = os_path_abspath H (d @ ''/test_data.yaml'')) \<and>
         map_of (test_yaml H) ''nc'' = Some (YInt 7) \<and>
         map_of (test_yaml H) ''names'' = Some (YList (map YStr UNDERWATER_CLASSES))"
proof -
  have vp: "(case validate_and_predict H w' of
               (w1, Inl e) \<Rightarrow> (w1, Inl e)
             | (w1, Inr u) \<Rightarrow> evaluate_test_set H w1)
            = evaluate_test_set H (fst (validate_and_predict H w'))" for w'
    using assms by (simp add: validate_and_predict_def Let_def)
  have one: "model_train H train_args_yolov8 = None \<longrightarrow>
            files (fst (main_train_and_test_yolov8 H w)) (test_yaml_path H) = Some (test_yaml H)"
    using assms(1)
    by (simp add: main_train_and_test_yolov8_def Let_def vp evaluate_test_set_file)
  have two: "model_train H train_args_yolov8s = None \<longrightarrow>
            files (fst (main_train_test_yolov8s H w)) (test_yaml_path H) = Some (test_yaml H)"
    using assms(1)
    by (simp add: main_train_test_yolov8s_def vp evaluate_test_set_file)
  have next_to: "\<forall>d name. script_file H = d @ ''/'' @ name \<and> CHR ''/'' \<notin> set name \<and>
                   d \<noteq> [] \<and> last d \<noteq> CHR ''/'' \<longrightarrow>
            test_yaml_path H = os_path_abspath H (d @ ''/test_data.yaml'')"
    by (simp add: test_yaml_path_def os_path_dirname_file os_path_join_file)
  have content: "map_of (test_yaml H) ''nc'' = Some (YInt 7) \<and>
         map_of (test_yaml H) ''names'' = Some (YList (map YStr UNDERWATER_CLASSES))"
    by (simp add: test_yaml_def UNDERWATER_CLASSES_def)
  from one two next_to content show ?thesis by blast
qed

theorem training_scripts_write_label_map_witness:
  "YOLO_new demo_train_host ''yolov8s.pt'' = None \<and>
   model_val demo_train_host val_args = Inr (Inr (1 / 2)) \<and>
   model_predict demo_train_host (predict_args demo_train_host) = None \<and>
   model_train demo_train_host train_args_yolov8 = None \<and>
   model_train demo_train_host train_args_yolov8s = None \<and>
   test_yaml_path demo_train_host = ''/proj/test_data.yaml'' \<and>
   files (fst (main_train_and_test_yolov8 demo_train_host empty_world)) ''/proj/test_data.yaml''
     = Some (test_yaml demo_train_host) \<and>
   files (fst (main_train_test_yolov8s demo_train_host empty_world)) ''/proj/test_data.yaml''
     = Some (test_yaml demo_train_host) \<and>
   map_of (test_yaml demo_train_host) ''nc'' = Some (YInt 7)"
proof -
  have a: "YOLO_new demo_train_host ''yolov8s.pt'' = None"
    and b: "model_val demo_train_host val_args = Inr (Inr (1 / 2))"
    and c: "model_predict demo_train_host (predict_args demo_train_host) = None"
    and d: "model_train demo_train_host train_args_yolov8 = None"
           "model_train demo_train_host train_args_yolov8s = None"
    by (simp_all add: demo_train_host_def)
  have p: "test_yaml_path demo_train_host = ''/proj/test_data.yaml''"
    by (simp add: test_yaml_path_def demo_train_host_def os_path_join_def os_path_dirname_def)
  note t = training_scripts_write_label_map [OF a b c, where w = empty_world]
  from t d have "files (fst (main_train_and_test_yolov8 demo_train_host empty_world))
                   (test_yaml_path demo_train_host) = Some (test_yaml demo_train_host)"
    by blast
  moreover from t d have "files (fst (main_train_test_yolov8s demo_train_host empty_world))
                   (test_yaml_path demo_train_host) = Some (test_yaml demo_train_host)"
    by blast
  moreover from t have "map_of (test_yaml demo_train_host) ''nc'' = Some (YInt 7)"
    by blast
  ultimately show ?thesis
    using a b c d by (simp add: p)
qed

end
